theory Spec2Isabelle
  imports Complex_Main "HOL-Library.Word" "HOL-Library.Signed_Division"
begin

section \<open>Genes.h: gene classes and the trait operators of the base class\<close>

text \<open>
  The embedding follows \<^verbatim>\<open>src/src/Genes.h\<close>. C++ \<^verbatim>\<open>int\<close> is a 32-bit two's
  complement word: addition and subtraction wrap, comparisons read the word through
  \<open>sint\<close>, division rounds towards zero. C++ \<^verbatim>\<open>double\<close> is idealised as \<open>real\<close>
  (no rounding, no NaN, no infinities). A \<^verbatim>\<open>std::map\<close> that is only indexed is a partial
  function; a \<^verbatim>\<open>std::map\<close> that is iterated is the list of its entries in iteration
  order. Every \<^verbatim>\<open>throw\<close> is a value \<open>Inl e\<close>, returned together with the state the
  object and the generator have at the moment of the throw.
\<close>

subsection \<open>Values\<close>

type_synonym cint = "32 word"

text \<open>\<^verbatim>\<open>TraitType\<close>, the variant over int, bool, double and std::string.\<close>

datatype TraitType = TInt cint | TBool bool | TDouble real | TString string

text \<open>What \<^verbatim>\<open>TraitType::type()\<close> is compared with: the \<^verbatim>\<open>typeid\<close> of the alternative held.\<close>

datatype type_info = typeid_int | typeid_bool | typeid_double | typeid_string

fun type_of :: "TraitType \<Rightarrow> type_info" where
  "type_of (TInt i) = typeid_int"
| "type_of (TBool b) = typeid_bool"
| "type_of (TDouble x) = typeid_double"
| "type_of (TString s) = typeid_string"

text \<open>
  The exceptions of this file: the \<^verbatim>\<open>std::runtime_error\<close> thrown by hand with its
  message, and \<^verbatim>\<open>bad_get\<close> of a \<^verbatim>\<open>bs::get\<close> on a variant that holds another
  alternative. Indexing a \<^verbatim>\<open>std::vector\<close> out of range has no defined behaviour in C++;
  the model stops there with \<open>vector_out_of_range\<close>.
\<close>

datatype error = runtime_error string | bad_get | vector_out_of_range

definition get_int :: "TraitType \<Rightarrow> error + cint" where
  "get_int v = (case v of TInt i \<Rightarrow> Inr i | _ \<Rightarrow> Inl bad_get)"

definition get_bool :: "TraitType \<Rightarrow> error + bool" where
  "get_bool v = (case v of TBool b \<Rightarrow> Inr b | _ \<Rightarrow> Inl bad_get)"

definition get_double :: "TraitType \<Rightarrow> error + real" where
  "get_double v = (case v of TDouble x \<Rightarrow> Inr x | _ \<Rightarrow> Inl bad_get)"

definition get_string :: "TraitType \<Rightarrow> error + string" where
  "get_string v = (case v of TString s \<Rightarrow> Inr s | _ \<Rightarrow> Inl bad_get)"

text \<open>Integer arithmetic of C++ on \<^verbatim>\<open>int\<close>: \<^verbatim>\<open>/\<close> rounds towards zero.\<close>

definition int_div :: "cint \<Rightarrow> cint \<Rightarrow> cint" where
  "int_div a b = word_of_int (sint a sdiv sint b)"

definition int_abs :: "cint \<Rightarrow> cint" where
  "int_abs a = (if a <s 0 then - a else a)"

definition int_to_double :: "cint \<Rightarrow> real" where
  "int_to_double a = real_of_int (sint a)"

subsection \<open>Trait parameters (declared in Traits.h)\<close>

text \<open>
  Traits.h is not part of the sources at hand. The records below hold exactly the members
  that Genes.h reads; \<^verbatim>\<open>min\<close>, \<^verbatim>\<open>max\<close> and \<^verbatim>\<open>set\<close> carry a suffix because HOL
  has constants of these names.
\<close>

record IntTraitParameters =
  min_i :: cint
  max_i :: cint
  mut_power_i :: cint
  mut_replace_prob_i :: real

record FloatTraitParameters =
  min_f :: real
  max_f :: real
  mut_power_f :: real
  mut_replace_prob_f :: real

record StringTraitParameters =
  set_s :: "string list"
  probs_s :: "real list"

datatype Details =
  IntDetails IntTraitParameters
| FloatDetails FloatTraitParameters
| StringDetails StringTraitParameters

record TraitParameters =
  m_MutationProb :: real
  type :: string
  m_Details :: Details

definition get_IntTraitParameters :: "Details \<Rightarrow> error + IntTraitParameters" where
  "get_IntTraitParameters x = (case x of IntDetails p \<Rightarrow> Inr p | _ \<Rightarrow> Inl bad_get)"

definition get_FloatTraitParameters :: "Details \<Rightarrow> error + FloatTraitParameters" where
  "get_FloatTraitParameters x = (case x of FloatDetails p \<Rightarrow> Inr p | _ \<Rightarrow> Inl bad_get)"

definition get_StringTraitParameters :: "Details \<Rightarrow> error + StringTraitParameters" where
  "get_StringTraitParameters x = (case x of StringDetails p \<Rightarrow> Inr p | _ \<Rightarrow> Inl bad_get)"

subsection \<open>The random number generator (declared in Random.h)\<close>

text \<open>
  Random.h is not part of the sources at hand, so the generator is a parameter: a state
  type \<open>'s\<close> and, for each method that Genes.h calls, a function from the state to the
  value drawn and the next state.
\<close>

record 's RNG =
  RandFloat :: "'s \<Rightarrow> real \<times> 's"
  RandFloatSigned :: "'s \<Rightarrow> real \<times> 's"
  RandInt :: "cint \<Rightarrow> cint \<Rightarrow> 's \<Rightarrow> cint \<times> 's"
  Roulette :: "real list \<Rightarrow> 's \<Rightarrow> cint \<times> 's"

text \<open>
  Modelled from the spec: the contract of the generator, which Random.h would implement.
  The spec gives the generator as \<^verbatim>\<open>uniform_int(lo,hi)\<close>, an integer in \<open>[lo, hi]\<close>,
  \<^verbatim>\<open>uniform_float()\<close> in \<open>[0, 1)\<close> and \<^verbatim>\<open>signed_uniform_float()\<close> in \<open>[-1, 1)\<close>.
\<close>

definition RNG_contract :: "'s RNG \<Rightarrow> bool" where
  "RNG_contract R \<longleftrightarrow>
     (\<forall>s. 0 \<le> fst (RandFloat R s) \<and> fst (RandFloat R s) < 1) \<and>
     (\<forall>s. - 1 \<le> fst (RandFloatSigned R s) \<and> fst (RandFloatSigned R s) < 1) \<and>
     (\<forall>lo hi s. lo <=s hi \<longrightarrow> lo <=s fst (RandInt R lo hi s) \<and> fst (RandInt R lo hi s) <=s hi)"

subsection \<open>Helpers of Utils.h\<close>

text \<open>
  Modelled from the spec: \<^verbatim>\<open>Clamp\<close> and \<^verbatim>\<open>Scale\<close> of Utils.h, which is not part of
  the sources at hand. The spec has the perturbed value "clamped into [min,max]" and the
  fresh real value made by "scaling a unit-uniform draw into the bound range".
\<close>

definition Clamp_int :: "cint \<Rightarrow> cint \<Rightarrow> cint \<Rightarrow> cint" where
  "Clamp_int a lo hi = (if a <s lo then lo else if hi <s a then hi else a)"

definition Clamp_double :: "real \<Rightarrow> real \<Rightarrow> real \<Rightarrow> real" where
  "Clamp_double a lo hi = (if a < lo then lo else if hi < a then hi else a)"

definition Scale :: "real \<Rightarrow> real \<Rightarrow> real \<Rightarrow> real \<Rightarrow> real \<Rightarrow> real" where
  "Scale a a_min a_max a_tr_min a_tr_max =
     a_tr_min + (a_tr_max - a_tr_min) * ((a - a_min) / (a_max - a_min))"

subsection \<open>The trait bag\<close>

text \<open>
  \<^verbatim>\<open>m_Traits\<close> maps a trait name to a \<^verbatim>\<open>Trait\<close>; Genes.h reads and writes only the
  member \<^verbatim>\<open>value\<close> of a \<^verbatim>\<open>Trait\<close>, so the bag maps the name to that value.
  \<^verbatim>\<open>m_Traits[name]\<close> is \<^verbatim>\<open>std::map::operator[]\<close>: a name that is absent is inserted
  first, with a default-constructed \<^verbatim>\<open>Trait\<close>. The value that a default-constructed
  \<^verbatim>\<open>Trait\<close> or \<^verbatim>\<open>TraitType\<close> holds is fixed in Traits.h and is the parameter
  \<open>dflt\<close> of every operator below.
\<close>

type_synonym Traits = "string \<rightharpoonup> TraitType"

definition index_Traits :: "TraitType \<Rightarrow> Traits \<Rightarrow> string \<Rightarrow> TraitType \<times> Traits" where
  "index_Traits dflt m name =
     (case m name of Some v \<Rightarrow> (v, m) | None \<Rightarrow> (dflt, m(name \<mapsto> dflt)))"

text \<open>
  The conditional assignment
  \<^verbatim>\<open>m_Traits[name].value = (a_RNG.RandFloat() < 0.5)? mine : yours\<close>.
\<close>

definition either_or ::
  "'s RNG \<Rightarrow> string \<Rightarrow> TraitType \<Rightarrow> TraitType \<Rightarrow> Traits \<times> 's \<Rightarrow> Traits \<times> 's" where
  "either_or R name mine yours st =
     (case st of (m, s) \<Rightarrow>
        (case RandFloat R s of (c, s') \<Rightarrow>
           (m(name \<mapsto> (if c < 0.5 then mine else yours)), s')))"

subsection \<open>Gene::InitTraits\<close>

text \<open>
  One pass of the loop body for the entry \<open>(name, p)\<close> of \<^verbatim>\<open>tp\<close>. The four tests of
  \<^verbatim>\<open>it->second.type\<close> compare one unchanged string with four different literals, so
  at most one of them holds and the chain of \<open>if\<close>s below takes the same path. The
  local \<^verbatim>\<open>t\<close> starts default-constructed and is stored under the name at the end of
  every pass.
\<close>

definition InitTraits_body ::
  "'s RNG \<Rightarrow> TraitType \<Rightarrow> string \<times> TraitParameters \<Rightarrow> Traits \<times> 's
     \<Rightarrow> (error + unit) \<times> Traits \<times> 's" where
  "InitTraits_body R dflt e st =
     (case e of (name, p) \<Rightarrow> case st of (m, s) \<Rightarrow>
        if type p = ''int'' then
          (case get_IntTraitParameters (m_Details p) of
             Inl err \<Rightarrow> (Inl err, m, s)
           | Inr itp \<Rightarrow>
               (case RandInt R (min_i itp) (max_i itp) s of (r, s') \<Rightarrow>
                  (Inr (), m(name \<mapsto> TInt r), s')))
        else if type p = ''bool'' then
          (case RandFloat R s of (x, s') \<Rightarrow>
             (Inr (), m(name \<mapsto> TBool (x < 0.5)), s'))
        else if type p = ''float'' then
          (case get_FloatTraitParameters (m_Details p) of
             Inl err \<Rightarrow> (Inl err, m, s)
           | Inr itp \<Rightarrow>
               (case RandFloat R s of (x, s') \<Rightarrow>
                  (Inr (), m(name \<mapsto> TDouble (Scale x 0 1 (min_f itp) (max_f itp))), s')))
        else if type p = ''string'' then
          (case get_StringTraitParameters (m_Details p) of
             Inl err \<Rightarrow> (Inl err, m, s)
           | Inr itp \<Rightarrow>
               (case Roulette R (probs_s itp) s of (idx, s') \<Rightarrow>
                  if 0 <=s idx \<and> nat (sint idx) < length (set_s itp)
                  then (Inr (), m(name \<mapsto> TString (set_s itp ! nat (sint idx))), s')
                  else (Inl vector_out_of_range, m, s')))
        else (Inr (), m(name \<mapsto> dflt), s))"

fun InitTraits ::
  "'s RNG \<Rightarrow> TraitType \<Rightarrow> (string \<times> TraitParameters) list \<Rightarrow> Traits \<times> 's
     \<Rightarrow> (error + unit) \<times> Traits \<times> 's" where
  "InitTraits R dflt [] st = (Inr (), st)"
| "InitTraits R dflt (e # tp) st =
     (case InitTraits_body R dflt e st of
        (Inl err, st') \<Rightarrow> (Inl err, st')
      | (Inr u, st') \<Rightarrow> InitTraits R dflt tp st')"

subsection \<open>Gene::MateTraits\<close>

text \<open>
  The \<open>else\<close> block of the coin flip (lines 169 to 182): the average of two ints, a
  second pick for bools. \<^verbatim>\<open>bs::get\<close> is applied to \<open>mine\<close> and \<open>yours\<close> as in the
  source.
\<close>

definition Mate_average_block ::
  "'s RNG \<Rightarrow> string \<Rightarrow> TraitType \<Rightarrow> TraitType \<Rightarrow> Traits \<times> 's
     \<Rightarrow> (error + unit) \<times> Traits \<times> 's" where
  "Mate_average_block R name mine yours st =
     (case (if type_of mine = typeid_int then
              (case get_int mine of
                 Inl err \<Rightarrow> (Inl err, st)
               | Inr m1 \<Rightarrow>
                   (case get_int yours of
                      Inl err \<Rightarrow> (Inl err, st)
                    | Inr m2 \<Rightarrow>
                        (Inr (), (fst st)(name \<mapsto> TInt (int_div (m1 + m2) 2)), snd st)))
            else (Inr (), st)) of
        (Inl err, st1) \<Rightarrow> (Inl err, st1)
      | (Inr u, st1) \<Rightarrow>
          if type_of mine = typeid_bool
          then (Inr (), either_or R name mine yours st1)
          else (Inr (), st1))"

text \<open>The two tests that follow the coin flip, outside of its \<open>else\<close> (lines 183 to 193).\<close>

definition Mate_double_block ::
  "string \<Rightarrow> TraitType \<Rightarrow> TraitType \<Rightarrow> Traits \<times> 's \<Rightarrow> (error + unit) \<times> Traits \<times> 's" where
  "Mate_double_block name mine yours st =
     (if type_of mine = typeid_double then
        (case get_double mine of
           Inl err \<Rightarrow> (Inl err, st)
         | Inr m1 \<Rightarrow>
             (case get_double yours of
                Inl err \<Rightarrow> (Inl err, st)
              | Inr m2 \<Rightarrow> (Inr (), (fst st)(name \<mapsto> TDouble ((m1 + m2) / 2)), snd st)))
      else (Inr (), st))"

definition Mate_string_block ::
  "'s RNG \<Rightarrow> string \<Rightarrow> TraitType \<Rightarrow> TraitType \<Rightarrow> Traits \<times> 's \<Rightarrow> Traits \<times> 's" where
  "Mate_string_block R name mine yours st =
     (if type_of mine = typeid_string then either_or R name mine yours st else st)"

text \<open>One pass of the loop body for the entry \<open>(name, yours)\<close> of \<^verbatim>\<open>t\<close>.\<close>

definition MateTraits_body ::
  "'s RNG \<Rightarrow> TraitType \<Rightarrow> string \<times> TraitType \<Rightarrow> Traits \<times> 's
     \<Rightarrow> (error + unit) \<times> Traits \<times> 's" where
  "MateTraits_body R dflt e st =
     (case e of (name, yours) \<Rightarrow> case st of (m, s) \<Rightarrow>
        case index_Traits dflt m name of (mine, m0) \<Rightarrow>
          if \<not> (type_of mine = type_of yours)
          then (Inl (runtime_error ''Types of traits doesn't match''), m0, s)
          else
            (case RandFloat R s of (c, s0) \<Rightarrow>
               (case (if c < 0.5 then (Inr (), either_or R name mine yours (m0, s0))
                      else Mate_average_block R name mine yours (m0, s0)) of
                  (Inl err, st1) \<Rightarrow> (Inl err, st1)
                | (Inr u, st1) \<Rightarrow>
                    (case Mate_double_block name mine yours st1 of
                       (Inl err, st2) \<Rightarrow> (Inl err, st2)
                     | (Inr u, st2) \<Rightarrow> (Inr (), Mate_string_block R name mine yours st2)))))"

fun MateTraits ::
  "'s RNG \<Rightarrow> TraitType \<Rightarrow> (string \<times> TraitType) list \<Rightarrow> Traits \<times> 's
     \<Rightarrow> (error + unit) \<times> Traits \<times> 's" where
  "MateTraits R dflt [] st = (Inr (), st)"
| "MateTraits R dflt (e # t) st =
     (case MateTraits_body R dflt e st of
        (Inl err, st') \<Rightarrow> (Inl err, st')
      | (Inr u, st') \<Rightarrow> MateTraits R dflt t st')"

subsection \<open>Gene::MutateTraits\<close>

text \<open>
  One pass of the loop body for the entry \<open>(name, p)\<close> of \<^verbatim>\<open>tp\<close>: one block for
  each of the four tests of the kind string (lines 206 to 230, 231 to 245, 246 to 271 and
  272 to 294), the tests read as a chain as in \<open>InitTraits_body\<close>. An assignment
  \<^verbatim>\<open>m_Traits[name].value = v\<close> inserts the name when it is absent and then stores \<open>v\<close>,
  which is \<open>m(name \<mapsto> v)\<close>; a read \<^verbatim>\<open>bs::get<T>(m_Traits[name].value)\<close> goes through
  \<open>index_Traits\<close> and keeps the inserted entry when \<^verbatim>\<open>bs::get\<close> throws.
\<close>

definition Mutate_int_block ::
  "'s RNG \<Rightarrow> TraitType \<Rightarrow> string \<Rightarrow> TraitParameters \<Rightarrow> Traits \<times> 's
     \<Rightarrow> (error + unit) \<times> Traits \<times> 's" where
  "Mutate_int_block R dflt name p st =
     (case st of (m, s) \<Rightarrow>
        (case get_IntTraitParameters (m_Details p) of
           Inl err \<Rightarrow> (Inl err, m, s)
         | Inr itp \<Rightarrow>
             (case RandFloat R s of (c1, s1) \<Rightarrow>
                if c1 < m_MutationProb p then
                  (case RandFloat R s1 of (c2, s2) \<Rightarrow>
                     if c2 < mut_replace_prob_i itp then
                       (case RandInt R (min_i itp) (max_i itp) s2 of (val, s3) \<Rightarrow>
                          (Inr (), m(name \<mapsto> TInt val), s3))
                     else
                       (case index_Traits dflt m name of (cur, m0) \<Rightarrow>
                          (case get_int cur of
                             Inl err \<Rightarrow> (Inl err, m0, s2)
                           | Inr val \<Rightarrow>
                               (case RandInt R (- mut_power_i itp) (mut_power_i itp) s2 of
                                  (r, s3) \<Rightarrow>
                                    (Inr (),
                                     m0(name \<mapsto> TInt (Clamp_int (val + r) (min_i itp) (max_i itp))),
                                     s3)))))
                else (Inr (), m, s1))))"

definition Mutate_bool_block ::
  "'s RNG \<Rightarrow> TraitType \<Rightarrow> string \<Rightarrow> TraitParameters \<Rightarrow> Traits \<times> 's
     \<Rightarrow> (error + unit) \<times> Traits \<times> 's" where
  "Mutate_bool_block R dflt name p st =
     (case st of (m, s) \<Rightarrow>
        case RandFloat R s of (c1, s1) \<Rightarrow>
          if c1 < m_MutationProb p then
            (case RandFloat R s1 of (c2, s2) \<Rightarrow>
               if c2 < 0.5 then
                 (case index_Traits dflt m name of (cur, m0) \<Rightarrow>
                    (case get_bool cur of
                       Inl err \<Rightarrow> (Inl err, m0, s2)
                     | Inr val \<Rightarrow> (Inr (), m0(name \<mapsto> TBool (\<not> val)), s2)))
               else (Inr (), m, s2))
          else (Inr (), m, s1))"

definition Mutate_float_block ::
  "'s RNG \<Rightarrow> TraitType \<Rightarrow> string \<Rightarrow> TraitParameters \<Rightarrow> Traits \<times> 's
     \<Rightarrow> (error + unit) \<times> Traits \<times> 's" where
  "Mutate_float_block R dflt name p st =
     (case st of (m, s) \<Rightarrow>
        (case get_FloatTraitParameters (m_Details p) of
           Inl err \<Rightarrow> (Inl err, m, s)
         | Inr itp \<Rightarrow>
             (case RandFloat R s of (c1, s1) \<Rightarrow>
                if c1 < m_MutationProb p then
                  (case RandFloat R s1 of (c2, s2) \<Rightarrow>
                     if c2 < mut_replace_prob_f itp then
                       (case RandFloat R s2 of (val, s3) \<Rightarrow>
                          (Inr (),
                           m(name \<mapsto> TDouble (Scale val 0 1 (min_f itp) (max_f itp))),
                           s3))
                     else
                       (case index_Traits dflt m name of (cur, m0) \<Rightarrow>
                          (case get_double cur of
                             Inl err \<Rightarrow> (Inl err, m0, s2)
                           | Inr val \<Rightarrow>
                               (case RandFloatSigned R s2 of (r, s3) \<Rightarrow>
                                  (Inr (),
                                   m0(name \<mapsto> TDouble (Clamp_double (val + r * mut_power_f itp)
                                                          (min_f itp) (max_f itp))),
                                   s3)))))
                else (Inr (), m, s1))))"

definition Mutate_string_block ::
  "'s RNG \<Rightarrow> string \<Rightarrow> TraitParameters \<Rightarrow> Traits \<times> 's \<Rightarrow> (error + unit) \<times> Traits \<times> 's" where
  "Mutate_string_block R name p st =
     (case st of (m, s) \<Rightarrow>
        (case get_StringTraitParameters (m_Details p) of
           Inl err \<Rightarrow> (Inl err, m, s)
         | Inr itp \<Rightarrow>
             (case Roulette R (probs_s itp) s of (idx, s') \<Rightarrow>
                if 0 <=s idx \<and> nat (sint idx) < length (set_s itp)
                then (Inr (), m(name \<mapsto> TString (set_s itp ! nat (sint idx))), s')
                else (Inl vector_out_of_range, m, s'))))"

definition MutateTraits_body ::
  "'s RNG \<Rightarrow> TraitType \<Rightarrow> string \<times> TraitParameters \<Rightarrow> Traits \<times> 's
     \<Rightarrow> (error + unit) \<times> Traits \<times> 's" where
  "MutateTraits_body R dflt e st =
     (case e of (name, p) \<Rightarrow>
        if type p = ''int'' then Mutate_int_block R dflt name p st
        else if type p = ''bool'' then Mutate_bool_block R dflt name p st
        else if type p = ''float'' then Mutate_float_block R dflt name p st
        else if type p = ''string'' then Mutate_string_block R name p st
        else (Inr (), st))"

fun MutateTraits ::
  "'s RNG \<Rightarrow> TraitType \<Rightarrow> (string \<times> TraitParameters) list \<Rightarrow> Traits \<times> 's
     \<Rightarrow> (error + unit) \<times> Traits \<times> 's" where
  "MutateTraits R dflt [] st = (Inr (), st)"
| "MutateTraits R dflt (e # tp) st =
     (case MutateTraits_body R dflt e st of
        (Inl err, st') \<Rightarrow> (Inl err, st')
      | (Inr u, st') \<Rightarrow> MutateTraits R dflt tp st')"

subsection \<open>Gene::GetTraitDistances\<close>

text \<open>
  One pass of the loop body for the entry \<open>(name, yours)\<close> of \<^verbatim>\<open>other\<close>; the state is
  the receiver's bag and the local map \<^verbatim>\<open>dist\<close> (\<open>dists\<close> here, \<open>dist\<close> being a constant
  of HOL), which is lost when the pass throws.
  \<^verbatim>\<open>abs\<close> is the absolute value of its argument's own type: on two ints the difference
  and its absolute value are ints, converted to double when stored.
\<close>

type_synonym Distances = "string \<rightharpoonup> real"

definition GetTraitDistances_body ::
  "TraitType \<Rightarrow> string \<times> TraitType \<Rightarrow> Traits \<times> Distances
     \<Rightarrow> (error + Distances) \<times> Traits" where
  "GetTraitDistances_body dflt e st =
     (case e of (name, yours) \<Rightarrow> case st of (m, dists) \<Rightarrow>
        case index_Traits dflt m name of (mine, m0) \<Rightarrow>
          if \<not> (type_of mine = type_of yours)
          then (Inl (runtime_error ''Types of traits doesn't match''), m0)
          else if type_of mine = typeid_int then
            (case get_int mine of
               Inl err \<Rightarrow> (Inl err, m0)
             | Inr a \<Rightarrow>
                 (case get_int yours of
                    Inl err \<Rightarrow> (Inl err, m0)
                  | Inr b \<Rightarrow> (Inr (dists(name \<mapsto> int_to_double (int_abs (a - b)))), m0)))
          else if type_of mine = typeid_bool then
            (case get_bool mine of
               Inl err \<Rightarrow> (Inl err, m0)
             | Inr a \<Rightarrow>
                 (case get_bool yours of
                    Inl err \<Rightarrow> (Inl err, m0)
                  | Inr b \<Rightarrow> (Inr (dists(name \<mapsto> (if a = b then 0 else 1))), m0)))
          else if type_of mine = typeid_double then
            (case get_double mine of
               Inl err \<Rightarrow> (Inl err, m0)
             | Inr a \<Rightarrow>
                 (case get_double yours of
                    Inl err \<Rightarrow> (Inl err, m0)
                  | Inr b \<Rightarrow> (Inr (dists(name \<mapsto> \<bar>a - b\<bar>)), m0)))
          else
            (case get_string mine of
               Inl err \<Rightarrow> (Inl err, m0)
             | Inr a \<Rightarrow>
                 (case get_string yours of
                    Inl err \<Rightarrow> (Inl err, m0)
                  | Inr b \<Rightarrow> (Inr (dists(name \<mapsto> (if a = b then 0 else 1))), m0))))"

fun GetTraitDistances_loop ::
  "TraitType \<Rightarrow> (string \<times> TraitType) list \<Rightarrow> Traits \<times> Distances
     \<Rightarrow> (error + Distances) \<times> Traits" where
  "GetTraitDistances_loop dflt [] st = (Inr (snd st), fst st)"
| "GetTraitDistances_loop dflt (e # other) st =
     (case GetTraitDistances_body dflt e st of
        (Inl err, m') \<Rightarrow> (Inl err, m')
      | (Inr dists', m') \<Rightarrow> GetTraitDistances_loop dflt other (m', dists'))"

definition GetTraitDistances ::
  "TraitType \<Rightarrow> (string \<times> TraitType) list \<Rightarrow> Traits \<Rightarrow> (error + Distances) \<times> Traits" where
  "GetTraitDistances dflt other m = GetTraitDistances_loop dflt other (m, Map.empty)"

subsection \<open>The gene classes\<close>

datatype NeuronType = NONE | INPUT | BIAS | HIDDEN | OUTPUT

datatype ActivationFunction =
  SIGNED_SIGMOID | UNSIGNED_SIGMOID | TANH | TANH_CUBIC | SIGNED_STEP | UNSIGNED_STEP
| SIGNED_GAUSS | UNSIGNED_GAUSS | ABS | SIGNED_SINE | UNSIGNED_SINE | LINEAR | RELU | SOFTPLUS

record Gene =
  m_Traits :: Traits

record LinkGene = Gene +
  m_FromNeuronID :: cint
  m_ToNeuronID :: cint
  m_InnovationID :: cint
  m_Weight :: real
  m_IsRecurrent :: bool

text \<open>
  The members \<^verbatim>\<open>x\<close> and \<^verbatim>\<open>y\<close> of \<^verbatim>\<open>NeuronGene\<close> are \<open>x_display\<close> and
  \<open>y_display\<close> here, so that \<open>x\<close> and \<open>y\<close> stay variables.
\<close>

record NeuronGene = Gene +
  m_ID :: cint
  m_Type :: NeuronType
  x_display :: cint
  y_display :: cint
  m_SplitY :: real
  m_A :: real
  m_B :: real
  m_TimeConstant :: real
  m_Bias :: real
  m_ActFunction :: ActivationFunction

text \<open>
  The methods of \<^verbatim>\<open>Gene\<close> on an object of the class or of a class derived from it:
  they work on the member \<^verbatim>\<open>m_Traits\<close> and on the generator, and leave the object as
  it is at the moment of a throw.
\<close>

definition Gene_MutateTraits ::
  "'s RNG \<Rightarrow> TraitType \<Rightarrow> (string \<times> TraitParameters) list \<Rightarrow> 'a Gene_scheme \<times> 's
     \<Rightarrow> (error + unit) \<times> 'a Gene_scheme \<times> 's" where
  "Gene_MutateTraits R dflt tp gs =
     (case MutateTraits R dflt tp (m_Traits (fst gs), snd gs) of
        (r, m', s') \<Rightarrow> (r, (fst gs)\<lparr>m_Traits := m'\<rparr>, s'))"

definition Gene_MateTraits ::
  "'s RNG \<Rightarrow> TraitType \<Rightarrow> (string \<times> TraitType) list \<Rightarrow> 'a Gene_scheme \<times> 's
     \<Rightarrow> (error + unit) \<times> 'a Gene_scheme \<times> 's" where
  "Gene_MateTraits R dflt t gs =
     (case MateTraits R dflt t (m_Traits (fst gs), snd gs) of
        (r, m', s') \<Rightarrow> (r, (fst gs)\<lparr>m_Traits := m'\<rparr>, s'))"

definition SetWeight :: "real \<Rightarrow> LinkGene \<Rightarrow> LinkGene" where
  "SetWeight a_Weight g = g\<lparr>m_Weight := a_Weight\<rparr>"

definition Init ::
  "real \<Rightarrow> real \<Rightarrow> real \<Rightarrow> real \<Rightarrow> ActivationFunction \<Rightarrow> NeuronGene \<Rightarrow> NeuronGene" where
  "Init a_A a_B a_TimeConstant a_Bias a_ActFunc g =
     g\<lparr>m_A := a_A, m_B := a_B, m_TimeConstant := a_TimeConstant, m_Bias := a_Bias,
       m_ActFunction := a_ActFunc\<rparr>"

text \<open>
  A call made on a gene from outside, and a sequence of such calls. A caller that catches
  an exception goes on with the object as the throw left it, so the run keeps the state
  and drops the outcome of each call.
\<close>

datatype LinkGene_call =
  Link_MutateTraits "(string \<times> TraitParameters) list"
| Link_MateTraits "(string \<times> TraitType) list"
| Link_SetWeight real

datatype NeuronGene_call =
  Neuron_MutateTraits "(string \<times> TraitParameters) list"
| Neuron_MateTraits "(string \<times> TraitType) list"
| Neuron_Init real real real real ActivationFunction

fun LinkGene_do :: "'s RNG \<Rightarrow> TraitType \<Rightarrow> LinkGene \<times> 's \<Rightarrow> LinkGene_call \<Rightarrow> LinkGene \<times> 's" where
  "LinkGene_do R dflt gs (Link_MutateTraits tp) = snd (Gene_MutateTraits R dflt tp gs)"
| "LinkGene_do R dflt gs (Link_MateTraits t) = snd (Gene_MateTraits R dflt t gs)"
| "LinkGene_do R dflt gs (Link_SetWeight w) = (SetWeight w (fst gs), snd gs)"

fun NeuronGene_do ::
  "'s RNG \<Rightarrow> TraitType \<Rightarrow> NeuronGene \<times> 's \<Rightarrow> NeuronGene_call \<Rightarrow> NeuronGene \<times> 's" where
  "NeuronGene_do R dflt gs (Neuron_MutateTraits tp) = snd (Gene_MutateTraits R dflt tp gs)"
| "NeuronGene_do R dflt gs (Neuron_MateTraits t) = snd (Gene_MateTraits R dflt t gs)"
| "NeuronGene_do R dflt gs (Neuron_Init a b tc bias f) = (Init a b tc bias f (fst gs), snd gs)"

subsection \<open>A scripted generator\<close>

text \<open>
  A generator for running the operators on concrete inputs: its state is the list of
  the values still to be drawn. A draw takes the head of the list when it is a value the
  method may return and the lower end of the method's range otherwise.
\<close>

datatype draw = Float real | Index cint

fun script_float :: "real \<Rightarrow> draw list \<Rightarrow> real \<times> draw list" where
  "script_float lo (Float v # ds) = ((if lo \<le> v \<and> v < 1 then v else lo), ds)"
| "script_float lo (Index k # ds) = (lo, ds)"
| "script_float lo [] = (lo, [])"

fun script_int :: "cint \<Rightarrow> cint \<Rightarrow> draw list \<Rightarrow> cint \<times> draw list" where
  "script_int lo hi (Index k # ds) = ((if lo <=s k \<and> k <=s hi then k else lo), ds)"
| "script_int lo hi (Float v # ds) = (lo, ds)"
| "script_int lo hi [] = (lo, [])"

definition script_RNG :: "draw list RNG" where
  "script_RNG =
     \<lparr>RandFloat = script_float 0,
      RandFloatSigned = script_float (- 1),
      RandInt = script_int,
      Roulette = (\<lambda>probs. script_int 0 (word_of_nat (length probs) - 1))\<rparr>"

subsection \<open>Kinds that the operators know\<close>

text \<open>The four literals that \<^verbatim>\<open>InitTraits\<close> and \<^verbatim>\<open>MutateTraits\<close> compare the kind string with.\<close>

definition known_kind :: "string \<Rightarrow> bool" where
  "known_kind k \<longleftrightarrow> k = ''int'' \<or> k = ''bool'' \<or> k = ''float'' \<or> k = ''string''"

subsection \<open>Concrete trait parameters\<close>

text \<open>Parameter sets on which the operators are run below.\<close>

definition layers_spec :: TraitParameters where
  "layers_spec =
     \<lparr>m_MutationProb = 1, type = ''int'',
      m_Details = IntDetails
        \<lparr>min_i = 1, max_i = 10, mut_power_i = 5, mut_replace_prob_i = 0\<rparr>\<rparr>"

definition aggression_spec :: TraitParameters where
  "aggression_spec =
     \<lparr>m_MutationProb = 1, type = ''float'',
      m_Details = FloatDetails
        \<lparr>min_f = 0, max_f = 1, mut_power_f = 1, mut_replace_prob_f = 0\<rparr>\<rparr>"

definition flag_spec :: TraitParameters where
  "flag_spec =
     \<lparr>m_MutationProb = 1, type = ''bool'',
      m_Details = IntDetails
        \<lparr>min_i = 0, max_i = 0, mut_power_i = 0, mut_replace_prob_i = 0\<rparr>\<rparr>"

definition colour_spec :: TraitParameters where
  "colour_spec =
     \<lparr>m_MutationProb = 0, type = ''string'',
      m_Details = StringDetails \<lparr>set_s = [''red'', ''blue''], probs_s = [1, 1]\<rparr>\<rparr>"

definition odd_spec :: TraitParameters where
  "odd_spec =
     \<lparr>m_MutationProb = 1, type = ''double'',
      m_Details = FloatDetails
        \<lparr>min_f = 0, max_f = 1, mut_power_f = 1, mut_replace_prob_f = 0\<rparr>\<rparr>"

section \<open>Properties\<close>

subsection \<open>Identity fields\<close>

lemma LinkGene_do_InnovationID:
  "m_InnovationID (fst (LinkGene_do R dflt gs c)) = m_InnovationID (fst gs)"
  by (cases c)
    (simp_all add: Gene_MutateTraits_def Gene_MateTraits_def SetWeight_def split: prod.splits)

lemma NeuronGene_do_identity:
  "m_ID (fst (NeuronGene_do R dflt gs c)) = m_ID (fst gs) \<and>
   m_Type (fst (NeuronGene_do R dflt gs c)) = m_Type (fst gs) \<and>
   m_SplitY (fst (NeuronGene_do R dflt gs c)) = m_SplitY (fst gs)"
  by (cases c)
    (simp_all add: Gene_MutateTraits_def Gene_MateTraits_def Init_def split: prod.splits)

lemma LinkGene_run_InnovationID:
  "m_InnovationID (fst (foldl (LinkGene_do R dflt) gs calls)) = m_InnovationID (fst gs)"
  by (induction calls arbitrary: gs) (simp_all add: LinkGene_do_InnovationID)

lemma NeuronGene_run_identity:
  "m_ID (fst (foldl (NeuronGene_do R dflt) gs calls)) = m_ID (fst gs) \<and>
   m_Type (fst (foldl (NeuronGene_do R dflt) gs calls)) = m_Type (fst gs) \<and>
   m_SplitY (fst (foldl (NeuronGene_do R dflt) gs calls)) = m_SplitY (fst gs)"
  by (induction calls arbitrary: gs) (simp_all add: NeuronGene_do_identity)

text \<open>
  Claim C9. Whatever sequence of \<^verbatim>\<open>MutateTraits\<close>, \<^verbatim>\<open>MateTraits\<close> and
  \<^verbatim>\<open>SetWeight\<close> calls is made on a link gene, with whatever generator and arguments
  and whether or not a call throws, its innovation id is afterwards what it was; and
  whatever sequence of \<^verbatim>\<open>MutateTraits\<close>, \<^verbatim>\<open>MateTraits\<close> and \<^verbatim>\<open>Init\<close> calls is made
  on a neuron gene, its id, its type and its split depth are afterwards what they were.
\<close>

theorem identity_fields_unchanged:
  "m_InnovationID (fst (foldl (LinkGene_do R dflt) (l, s) lcalls)) = m_InnovationID l \<and>
   m_ID (fst (foldl (NeuronGene_do R dflt) (n, s) ncalls)) = m_ID n \<and>
   m_Type (fst (foldl (NeuronGene_do R dflt) (n, s) ncalls)) = m_Type n \<and>
   m_SplitY (fst (foldl (NeuronGene_do R dflt) (n, s) ncalls)) = m_SplitY n"
  using LinkGene_run_InnovationID [of R dflt "(l, s)" lcalls]
    NeuronGene_run_identity [of R dflt "(n, s)" ncalls]
  by simp

subsection \<open>Indexing the bag\<close>

lemma index_Traits_other:
  "k \<noteq> name \<Longrightarrow> snd (index_Traits dflt m k) name = m name"
  by (simp add: index_Traits_def split: option.splits)

lemma index_Traits_present:
  "m name = Some v \<Longrightarrow> index_Traits dflt m name = (v, m)"
  by (simp add: index_Traits_def)

lemma index_Traits_absent:
  "m name = None \<Longrightarrow> index_Traits dflt m name = (dflt, m(name \<mapsto> dflt))"
  by (simp add: index_Traits_def)

subsection \<open>The scripted generator keeps the contract\<close>

lemma script_float_range:
  "lo < 1 \<Longrightarrow> lo \<le> fst (script_float lo ds) \<and> fst (script_float lo ds) < 1"
  by (induction lo ds rule: script_float.induct) simp_all

lemma script_int_range:
  "lo <=s hi \<Longrightarrow> lo <=s fst (script_int lo hi ds) \<and> fst (script_int lo hi ds) <=s hi"
  by (induction lo hi ds rule: script_int.induct) simp_all

lemma script_RNG_contract: "RNG_contract script_RNG"
  unfolding RNG_contract_def script_RNG_def
  using script_float_range [of 0] script_float_range [of "- 1"] script_int_range
  by simp

subsection \<open>MateTraits: a real trait is always averaged\<close>

lemma Mate_double_always_average:
  assumes "m name = Some (TDouble a)"
  shows "fst (snd (MateTraits_body R dflt (name, TDouble b) (m, s))) name =
    Some (TDouble ((a + b) / 2))"
proof -
  obtain c s0 where c: "RandFloat R s = (c, s0)" by (cases "RandFloat R s")
  obtain c1 s1 where c1: "RandFloat R s0 = (c1, s1)" by (cases "RandFloat R s0")
  from assms c c1 show ?thesis
    by (simp add: MateTraits_body_def index_Traits_present either_or_def
        Mate_average_block_def Mate_double_block_def Mate_string_block_def get_double_def)
qed

text \<open>
  Claim C1. The claim has a real trait keep one parent's value when the first draw is
  below one half. Here both draws are 0.25, so the first branch is taken and the
  receiver's own value 1 is picked; the test for double that follows the \<open>if\<close>/\<open>else\<close>
  then overwrites it, and the call leaves the mean 2 of the parents' values 1 and 3.
\<close>

theorem Mate_double_pick_branch_stores_mean:
  "MateTraits script_RNG (TInt 0) [(''speed'', TDouble 3)]
     ([''speed'' \<mapsto> TDouble 1], [Float 0.25, Float 0.25]) =
   (Inr (), [''speed'' \<mapsto> TDouble 2], [])"
  by (simp add: MateTraits_body_def index_Traits_def script_RNG_def either_or_def
      Mate_double_block_def Mate_string_block_def get_double_def)

subsection \<open>MutateTraits: a string trait is drawn again in every call\<close>

lemma Mutate_string_block_no_gate:
  assumes "m_Details p = StringDetails sp" and "Roulette R (probs_s sp) s = (idx, s')"
    and "0 <=s idx" and "nat (sint idx) < length (set_s sp)"
  shows "Mutate_string_block R name p (m, s) =
    (Inr (), m(name \<mapsto> TString (set_s sp ! nat (sint idx))), s')"
  using assms by (simp add: Mutate_string_block_def get_StringTraitParameters_def)

text \<open>
  Claim C2. The claim has a string trait drawn again only when the draw against the
  mutation probability succeeds. Here the mutation probability is 0, so no such draw can
  succeed, and the call still replaces \<open>red\<close> by the candidate that the weighted pick
  returns: the block for strings makes no draw against \<^verbatim>\<open>m_MutationProb\<close>.
\<close>

theorem Mutate_string_ignores_mutation_probability:
  "m_MutationProb colour_spec = 0 \<and>
   MutateTraits script_RNG (TInt 0) [(''colour'', colour_spec)]
     ([''colour'' \<mapsto> TString ''red''], [Index 1]) =
   (Inr (), [''colour'' \<mapsto> TString ''blue''], [])"
  by (simp add: colour_spec_def MutateTraits_body_def Mutate_string_block_def
      get_StringTraitParameters_def script_RNG_def word_sle_eq)

subsection \<open>MutateTraits: a bool trait\<close>

text \<open>
  Claim C3, as stated, fails: with mutation probability 1 the first draw 0.25 triggers
  the mutation, the second draw 0.75 is not below one half, and the stored \<open>True\<close> is
  not negated.
\<close>

theorem Mutate_bool_trigger_without_flip:
  "fst (RandFloat script_RNG [Float 0.25, Float 0.75]) < m_MutationProb flag_spec \<and>
   MutateTraits script_RNG (TInt 0) [(''flag'', flag_spec)]
     ([''flag'' \<mapsto> TBool True], [Float 0.25, Float 0.75]) =
   (Inr (), [''flag'' \<mapsto> TBool True], [])"
  by (simp add: flag_spec_def MutateTraits_body_def Mutate_bool_block_def script_RNG_def)

text \<open>
  Claim C3, amended. For a bool trait whose bag entry is a bool, when the draw against
  the mutation probability triggers, a second draw is made: the stored boolean is negated
  when that draw is below one half and is left as it is otherwise.
\<close>

theorem Mutate_bool_trigger_second_draw:
  assumes "type p = ''bool''" and "m name = Some (TBool b)"
    and "fst (RandFloat R s) < m_MutationProb p"
  shows "MutateTraits_body R dflt (name, p) (m, s) =
    (Inr (),
     (if fst (RandFloat R (snd (RandFloat R s))) < 0.5 then m(name \<mapsto> TBool (\<not> b)) else m),
     snd (RandFloat R (snd (RandFloat R s))))"
proof -
  obtain c1 s1 where c1: "RandFloat R s = (c1, s1)" by (cases "RandFloat R s")
  obtain c2 s2 where c2: "RandFloat R s1 = (c2, s2)" by (cases "RandFloat R s1")
  from assms c1 c2 show ?thesis
    by (simp add: MutateTraits_body_def Mutate_bool_block_def index_Traits_present get_bool_def)
qed

theorem Mutate_bool_trigger_second_draw_witness:
  "type flag_spec = ''bool'' \<and>
   [''flag'' \<mapsto> TBool True] ''flag'' = Some (TBool True) \<and>
   fst (RandFloat script_RNG [Float 0.25, Float 0.125]) < m_MutationProb flag_spec \<and>
   MutateTraits_body script_RNG (TInt 0) (''flag'', flag_spec)
     ([''flag'' \<mapsto> TBool True], [Float 0.25, Float 0.125]) =
   (Inr (), [''flag'' \<mapsto> TBool False], [])"
proof -
  have h1: "type flag_spec = ''bool''" by (simp add: flag_spec_def)
  have h2: "[''flag'' \<mapsto> TBool True] ''flag'' = Some (TBool True)" by simp
  have h3: "fst (RandFloat script_RNG [Float 0.25, Float 0.125]) < m_MutationProb flag_spec"
    by (simp add: flag_spec_def script_RNG_def)
  show ?thesis
    using h1 h2 h3
      Mutate_bool_trigger_second_draw [where p = flag_spec and name = "''flag''" and b = True
        and m = "[''flag'' \<mapsto> TBool True]" and R = script_RNG and dflt = "TInt 0"
        and s = "[Float 0.25, Float 0.125]"]
    by (simp add: script_RNG_def)
qed

subsection \<open>A pass of InitTraits or MutateTraits touches one name only\<close>

lemma Mutate_int_block_other:
  "k \<noteq> name \<Longrightarrow> fst (snd (Mutate_int_block R dflt k p (m, s))) name = m name"
  by (auto simp: Mutate_int_block_def index_Traits_def
      split: sum.splits prod.splits option.splits)

lemma Mutate_bool_block_other:
  "k \<noteq> name \<Longrightarrow> fst (snd (Mutate_bool_block R dflt k p (m, s))) name = m name"
  by (auto simp: Mutate_bool_block_def index_Traits_def
      split: sum.splits prod.splits option.splits)

lemma Mutate_float_block_other:
  "k \<noteq> name \<Longrightarrow> fst (snd (Mutate_float_block R dflt k p (m, s))) name = m name"
  by (auto simp: Mutate_float_block_def index_Traits_def
      split: sum.splits prod.splits option.splits)

lemma Mutate_string_block_other:
  "k \<noteq> name \<Longrightarrow> fst (snd (Mutate_string_block R k p (m, s))) name = m name"
  by (simp add: Mutate_string_block_def split: sum.splits prod.splits)

lemma MutateTraits_body_other:
  "k \<noteq> name \<Longrightarrow> fst (snd (MutateTraits_body R dflt (k, p) (m, s))) name = m name"
  by (simp add: MutateTraits_body_def Mutate_int_block_other Mutate_bool_block_other
      Mutate_float_block_other Mutate_string_block_other)

lemma MutateTraits_other:
  "name \<notin> fst ` set tp \<Longrightarrow> fst (snd (MutateTraits R dflt tp (m, s))) name = m name"
proof (induction tp arbitrary: m s)
  case Nil
  then show ?case by simp
next
  case (Cons e tp)
  obtain k p where e: "e = (k, p)" by (cases e)
  obtain r m1 s1 where b: "MutateTraits_body R dflt (k, p) (m, s) = (r, m1, s1)"
    by (cases "MutateTraits_body R dflt (k, p) (m, s)")
  from Cons.prems e have "k \<noteq> name" by auto
  then have m1: "m1 name = m name"
    using MutateTraits_body_other [of k name R dflt p m s] b by simp
  from Cons.prems have "name \<notin> fst ` set tp" by simp
  then have "fst (snd (MutateTraits R dflt tp (m1, s1))) name = m1 name"
    by (rule Cons.IH)
  with m1 b e show ?case by (cases r) simp_all
qed

lemma InitTraits_body_other:
  "k \<noteq> name \<Longrightarrow> fst (snd (InitTraits_body R dflt (k, p) (m, s))) name = m name"
  by (simp add: InitTraits_body_def split: sum.splits prod.splits)

lemma InitTraits_other:
  "name \<notin> fst ` set tp \<Longrightarrow> fst (snd (InitTraits R dflt tp (m, s))) name = m name"
proof (induction tp arbitrary: m s)
  case Nil
  then show ?case by simp
next
  case (Cons e tp)
  obtain k p where e: "e = (k, p)" by (cases e)
  obtain r m1 s1 where b: "InitTraits_body R dflt (k, p) (m, s) = (r, m1, s1)"
    by (cases "InitTraits_body R dflt (k, p) (m, s)")
  from Cons.prems e have "k \<noteq> name" by auto
  then have m1: "m1 name = m name"
    using InitTraits_body_other [of k name R dflt p m s] b by simp
  from Cons.prems have "name \<notin> fst ` set tp" by simp
  then have "fst (snd (InitTraits R dflt tp (m1, s1))) name = m1 name"
    by (rule Cons.IH)
  with m1 b e show ?case by (cases r) simp_all
qed

subsection \<open>A kind string that is none of the four\<close>

lemma MutateTraits_body_unknown:
  "\<not> known_kind (type p) \<Longrightarrow> MutateTraits_body R dflt (name, p) st = (Inr (), st)"
  by (simp add: MutateTraits_body_def known_kind_def)

lemma InitTraits_body_unknown:
  "\<not> known_kind (type p) \<Longrightarrow>
     InitTraits_body R dflt (name, p) (m, s) = (Inr (), m(name \<mapsto> dflt), s)"
  by (simp add: InitTraits_body_def known_kind_def)

lemma MutateTraits_unknown_kind:
  assumes "distinct (map fst tp)" and "(name, p) \<in> set tp" and "\<not> known_kind (type p)"
  shows "fst (snd (MutateTraits R dflt tp (m, s))) name = m name"
  using assms
proof (induction tp arbitrary: m s)
  case Nil
  then show ?case by simp
next
  case (Cons e tp)
  obtain k q where e: "e = (k, q)" by (cases e)
  show ?case
  proof (cases "e = (name, p)")
    case True
    from Cons.prems(1) True have "name \<notin> fst ` set tp" by simp
    then have "fst (snd (MutateTraits R dflt tp (m, s))) name = m name"
      by (rule MutateTraits_other)
    with True Cons.prems(3) show ?thesis
      by (simp add: MutateTraits_body_unknown)
  next
    case False
    with Cons.prems(2) have mem: "(name, p) \<in> set tp" by simp
    with Cons.prems(1) e have kn: "k \<noteq> name" by (auto simp: image_iff)
    obtain r m1 s1 where b: "MutateTraits_body R dflt (k, q) (m, s) = (r, m1, s1)"
      by (cases "MutateTraits_body R dflt (k, q) (m, s)")
    have m1: "m1 name = m name"
      using MutateTraits_body_other [OF kn, of R dflt q m s] b by simp
    from Cons.prems(1) have "distinct (map fst tp)" by simp
    then have "fst (snd (MutateTraits R dflt tp (m1, s1))) name = m1 name"
      using mem Cons.prems(3) by (rule Cons.IH)
    with m1 b e show ?thesis by (cases r) simp_all
  qed
qed

lemma InitTraits_unknown_kind:
  assumes "distinct (map fst tp)" and "(name, p) \<in> set tp" and "\<not> known_kind (type p)"
    and "fst (InitTraits R dflt tp (m, s)) = Inr ()"
  shows "fst (snd (InitTraits R dflt tp (m, s))) name = Some dflt"
  using assms
proof (induction tp arbitrary: m s)
  case Nil
  then show ?case by simp
next
  case (Cons e tp)
  obtain k q where e: "e = (k, q)" by (cases e)
  show ?case
  proof (cases "e = (name, p)")
    case True
    from Cons.prems(1) True have "name \<notin> fst ` set tp" by simp
    then have "fst (snd (InitTraits R dflt tp (m(name \<mapsto> dflt), s))) name =
        (m(name \<mapsto> dflt)) name"
      by (rule InitTraits_other)
    with True Cons.prems(3) show ?thesis
      by (simp add: InitTraits_body_unknown)
  next
    case False
    with Cons.prems(2) have mem: "(name, p) \<in> set tp" by simp
    obtain r m1 s1 where b: "InitTraits_body R dflt (k, q) (m, s) = (r, m1, s1)"
      by (cases "InitTraits_body R dflt (k, q) (m, s)")
    from Cons.prems(4) b e have r: "r = Inr ()" by (cases r) simp_all
    with Cons.prems(4) b e have "fst (InitTraits R dflt tp (m1, s1)) = Inr ()" by simp
    with Cons.prems(1,3) mem have "fst (snd (InitTraits R dflt tp (m1, s1))) name = Some dflt"
      using Cons.IH by simp
    with r b e show ?thesis by simp
  qed
qed

text \<open>
  Claim C4, as stated, fails for \<^verbatim>\<open>InitTraits\<close>: the kind string \<open>double\<close> is none of
  the four, and the bag that \<^verbatim>\<open>InitTraits\<close> leaves has the name, with the value of a
  default-constructed \<^verbatim>\<open>TraitType\<close>.
\<close>

theorem Init_unknown_kind_key_present:
  "\<not> known_kind (type odd_spec) \<and>
   ''gain'' \<in> dom (fst (snd (InitTraits script_RNG (TInt 0) [(''gain'', odd_spec)]
     (Map.empty, []))))"
  by (simp add: odd_spec_def known_kind_def InitTraits_body_def)

text \<open>
  Claim C4, amended. For a trait whose kind string is none of \<open>int\<close>, \<open>bool\<close>,
  \<open>float\<close> and \<open>string\<close>, \<^verbatim>\<open>MutateTraits\<close> produces no value: the bag has under
  that name what it had before the call, so a name that was missing stays missing.
  \<^verbatim>\<open>InitTraits\<close>, when it returns, has stored under that name the value of a
  default-constructed \<^verbatim>\<open>TraitType\<close>, so the name is present.
\<close>

theorem unknown_kind_Mutate_keeps_Init_stores_default:
  assumes "distinct (map fst tp)" and "(name, p) \<in> set tp" and "\<not> known_kind (type p)"
  shows "fst (snd (MutateTraits R dflt tp (m, s))) name = m name \<and>
    (fst (InitTraits R dflt tp (m, s)) = Inr () \<longrightarrow>
       fst (snd (InitTraits R dflt tp (m, s))) name = Some dflt)"
  using MutateTraits_unknown_kind [OF assms, of R dflt m s]
    InitTraits_unknown_kind [OF assms, of R dflt m s]
  by simp

theorem unknown_kind_Mutate_keeps_Init_stores_default_witness:
  "distinct (map fst [(''gain'', odd_spec), (''layers'', layers_spec)]) \<and>
   (''gain'', odd_spec) \<in> set [(''gain'', odd_spec), (''layers'', layers_spec)] \<and>
   \<not> known_kind (type odd_spec) \<and>
   fst (InitTraits script_RNG (TInt 0) [(''gain'', odd_spec), (''layers'', layers_spec)]
     (Map.empty, [Index 3])) = Inr () \<and>
   fst (snd (MutateTraits script_RNG (TInt 0) [(''gain'', odd_spec), (''layers'', layers_spec)]
     (Map.empty, [Float 0.5]))) ''gain'' = None \<and>
   fst (snd (InitTraits script_RNG (TInt 0) [(''gain'', odd_spec), (''layers'', layers_spec)]
     (Map.empty, [Index 3]))) ''gain'' = Some (TInt 0)"
proof -
  have h1: "distinct (map fst [(''gain'', odd_spec), (''layers'', layers_spec)])" by simp
  have h2: "(''gain'', odd_spec) \<in> set [(''gain'', odd_spec), (''layers'', layers_spec)]"
    by simp
  have h3: "\<not> known_kind (type odd_spec)" by (simp add: odd_spec_def known_kind_def)
  have h4: "fst (InitTraits script_RNG (TInt 0) [(''gain'', odd_spec), (''layers'', layers_spec)]
     (Map.empty, [Index 3])) = Inr ()"
    by (simp add: odd_spec_def layers_spec_def InitTraits_body_def
        get_IntTraitParameters_def script_RNG_def split: prod.splits)
  show ?thesis
    using h1 h2 h3 h4
      unknown_kind_Mutate_keeps_Init_stores_default [OF h1 h2 h3, of script_RNG "TInt 0"
        Map.empty "[Float 0.5]"]
      unknown_kind_Mutate_keeps_Init_stores_default [OF h1 h2 h3, of script_RNG "TInt 0"
        Map.empty "[Index 3]"]
    by simp
qed

subsection \<open>GetTraitDistances\<close>

lemma GetTraitDistances_body_shape:
  "\<exists>r. GetTraitDistances_body dflt (k, y) (m, acc) = (r, snd (index_Traits dflt m k)) \<and>
     ((r = Inl (runtime_error ''Types of traits doesn't match'') \<and>
       type_of (fst (index_Traits dflt m k)) \<noteq> type_of y) \<or>
      (type_of (fst (index_Traits dflt m k)) = type_of y \<and> (\<exists>d. r = Inr (acc(k \<mapsto> d)))))"
proof -
  obtain mine m0 where i: "index_Traits dflt m k = (mine, m0)"
    by (cases "index_Traits dflt m k")
  show ?thesis
    by (cases mine; cases y)
      (auto simp: GetTraitDistances_body_def i get_int_def get_bool_def get_double_def
        get_string_def)
qed

lemma GetTraitDistances_body_other:
  assumes "k \<noteq> name"
  shows "snd (GetTraitDistances_body dflt (k, y) (m, acc)) name = m name"
    and "fst (GetTraitDistances_body dflt (k, y) (m, acc)) = Inr acc' \<Longrightarrow> acc' name = acc name"
  using assms GetTraitDistances_body_shape [of dflt k y m acc]
    index_Traits_other [of k name dflt m]
  by auto

lemma GetTraitDistances_loop_other:
  assumes "name \<notin> fst ` set other"
  shows "snd (GetTraitDistances_loop dflt other (m, acc)) name = m name \<and>
    (\<forall>acc'. fst (GetTraitDistances_loop dflt other (m, acc)) = Inr acc' \<longrightarrow>
       acc' name = acc name)"
  using assms
proof (induction other arbitrary: m acc)
  case Nil
  then show ?case by simp
next
  case (Cons e other)
  obtain k y where e: "e = (k, y)" by (cases e)
  obtain r m1 where b: "GetTraitDistances_body dflt (k, y) (m, acc) = (r, m1)"
    by (cases "GetTraitDistances_body dflt (k, y) (m, acc)")
  from Cons.prems e have kn: "k \<noteq> name" by auto
  have m1: "m1 name = m name"
    using GetTraitDistances_body_other(1) [OF kn, of dflt y m acc] b by simp
  from Cons.prems have rest: "name \<notin> fst ` set other" by simp
  show ?case
  proof (cases r)
    case (Inl err)
    with b e m1 show ?thesis by simp
  next
    case (Inr acc1)
    have a1: "acc1 name = acc name"
      using GetTraitDistances_body_other(2) [OF kn, of dflt y m acc acc1] b Inr by simp
    from Cons.IH [OF rest, of m1 acc1] m1 a1 b e Inr show ?thesis by simp
  qed
qed

lemma GetTraitDistances_body_keeps:
  "m name = Some x \<Longrightarrow> snd (GetTraitDistances_body dflt (k, y) (m, acc)) name = Some x"
  using GetTraitDistances_body_shape [of dflt k y m acc]
  by (auto simp: index_Traits_def split: option.splits)

lemma GetTraitDistances_loop_keeps:
  "m name = Some x \<Longrightarrow> snd (GetTraitDistances_loop dflt other (m, acc)) name = Some x"
proof (induction other arbitrary: m acc)
  case Nil
  then show ?case by simp
next
  case (Cons e other)
  obtain k y where e: "e = (k, y)" by (cases e)
  obtain r m1 where b: "GetTraitDistances_body dflt (k, y) (m, acc) = (r, m1)"
    by (cases "GetTraitDistances_body dflt (k, y) (m, acc)")
  from GetTraitDistances_body_keeps [where m = m and name = name and x = x and dflt = dflt
      and k = k and y = y and acc = acc] Cons.prems b
  have m1: "m1 name = Some x" by simp
  show ?case
  proof (cases r)
    case (Inl err)
    with b e m1 show ?thesis by simp
  next
    case (Inr acc1)
    from Cons.IH [where m = m1 and acc = acc1] m1 b e Inr show ?thesis by simp
  qed
qed

lemma GetTraitDistances_body_double:
  "m name = Some (TDouble a) \<Longrightarrow>
   GetTraitDistances_body dflt (name, TDouble b) (m, acc) = (Inr (acc(name \<mapsto> \<bar>a - b\<bar>)), m)"
  by (simp add: GetTraitDistances_body_def index_Traits_def get_double_def)

lemma GetTraitDistances_loop_double:
  assumes "distinct (map fst other)" and "(name, TDouble b) \<in> set other"
    and "m name = Some (TDouble a)"
    and "fst (GetTraitDistances_loop dflt other (m, acc)) = Inr dists"
  shows "dists name = Some \<bar>a - b\<bar>"
  using assms
proof (induction other arbitrary: m acc)
  case Nil
  then show ?case by simp
next
  case (Cons e other)
  obtain k y where e: "e = (k, y)" by (cases e)
  show ?case
  proof (cases "e = (name, TDouble b)")
    case True
    from Cons.prems(1) True have rest: "name \<notin> fst ` set other" by simp
    from Cons.prems(4) True Cons.prems(3)
    have run: "fst (GetTraitDistances_loop dflt other (m, acc(name \<mapsto> \<bar>a - b\<bar>))) = Inr dists"
      by (simp add: GetTraitDistances_body_double)
    from GetTraitDistances_loop_other [OF rest, of dflt m "acc(name \<mapsto> \<bar>a - b\<bar>)"] run
    show ?thesis by simp
  next
    case False
    with Cons.prems(2) have mem: "(name, TDouble b) \<in> set other" by simp
    with Cons.prems(1) e have kn: "k \<noteq> name" by (auto simp: image_iff)
    obtain r m1 where bd: "GetTraitDistances_body dflt (k, y) (m, acc) = (r, m1)"
      by (cases "GetTraitDistances_body dflt (k, y) (m, acc)")
    have m1: "m1 name = Some (TDouble a)"
      using GetTraitDistances_body_other(1) [OF kn, of dflt y m acc] bd Cons.prems(3) by simp
    from Cons.prems(4) bd e obtain acc1 where r: "r = Inr acc1" by (cases r) simp_all
    with Cons.prems(4) bd e
    have "fst (GetTraitDistances_loop dflt other (m1, acc1)) = Inr dists" by simp
    with Cons.prems(1) mem m1 show ?thesis using Cons.IH by simp
  qed
qed

text \<open>
  Claim C5. When \<^verbatim>\<open>GetTraitDistances\<close> returns, every name that the argument maps to
  a real value \<open>b\<close> and the receiver's bag maps to a real value \<open>a\<close> is mapped to
  \<open>\<bar>a - b\<bar>\<close> in the result. The entries of the argument are those of a \<^verbatim>\<open>std::map\<close>, so
  their names are distinct.
\<close>

theorem Distance_Real_absolute_difference:
  assumes "distinct (map fst other)" and "(name, TDouble b) \<in> set other"
    and "m name = Some (TDouble a)"
    and "fst (GetTraitDistances dflt other m) = Inr dists"
  shows "dists name = Some \<bar>a - b\<bar>"
  using assms GetTraitDistances_loop_double [of other name b m a dflt Map.empty dists]
  by (simp add: GetTraitDistances_def)

theorem Distance_Real_absolute_difference_witness:
  "distinct (map fst [(''speed'', TDouble 3.5), (''tag'', TString ''x'')]) \<and>
   (''speed'', TDouble 3.5) \<in> set [(''speed'', TDouble 3.5), (''tag'', TString ''x'')] \<and>
   [''speed'' \<mapsto> TDouble 1.25, ''tag'' \<mapsto> TString ''y''] ''speed'' = Some (TDouble 1.25) \<and>
   fst (GetTraitDistances (TInt 0) [(''speed'', TDouble 3.5), (''tag'', TString ''x'')]
     [''speed'' \<mapsto> TDouble 1.25, ''tag'' \<mapsto> TString ''y'']) =
     Inr [''speed'' \<mapsto> 2.25, ''tag'' \<mapsto> 1] \<and>
   [''speed'' \<mapsto> 2.25 :: real, ''tag'' \<mapsto> 1] ''speed'' = Some \<bar>1.25 - 3.5\<bar>"
proof -
  have h1: "distinct (map fst [(''speed'', TDouble 3.5), (''tag'', TString ''x'')])" by simp
  have h2: "(''speed'', TDouble 3.5) \<in> set [(''speed'', TDouble 3.5), (''tag'', TString ''x'')]"
    by simp
  have h3: "[''speed'' \<mapsto> TDouble 1.25, ''tag'' \<mapsto> TString ''y''] ''speed'' =
      Some (TDouble 1.25)"
    by simp
  have h4: "fst (GetTraitDistances (TInt 0) [(''speed'', TDouble 3.5), (''tag'', TString ''x'')]
     [''speed'' \<mapsto> TDouble 1.25, ''tag'' \<mapsto> TString ''y'']) =
     Inr [''speed'' \<mapsto> 2.25, ''tag'' \<mapsto> 1]"
    by (simp add: GetTraitDistances_def GetTraitDistances_body_def index_Traits_def
        get_double_def get_string_def)
  from Distance_Real_absolute_difference [where other = "[(''speed'', TDouble 3.5),
      (''tag'', TString ''x'')]" and name = "''speed''" and b = "3.5" and a = "1.25"
      and m = "[''speed'' \<mapsto> TDouble 1.25, ''tag'' \<mapsto> TString ''y'']" and dflt = "TInt 0"
      and dists = "[''speed'' \<mapsto> 2.25, ''tag'' \<mapsto> 1]"] h1 h2 h3 h4
  have "[''speed'' \<mapsto> 2.25 :: real, ''tag'' \<mapsto> 1] ''speed'' = Some \<bar>1.25 - 3.5\<bar>"
    by blast
  with h1 h2 h3 h4 show ?thesis by blast
qed

subsection \<open>MateTraits: the average of two ints\<close>

lemma sint_add_no_overflow:
  fixes a b :: cint
  assumes "- (2 ^ 31) \<le> sint a + sint b" and "sint a + sint b < 2 ^ 31"
  shows "sint (a + b) = sint a + sint b"
  using assms by (simp add: sint_word_ariths signed_take_bit_int_eq_self)

lemma sdiv_2_bounds:
  fixes k :: int
  assumes "- (2 ^ 31) \<le> k" and "k < 2 ^ 31"
  shows "- (2 ^ 31) \<le> k sdiv 2 \<and> k sdiv 2 < 2 ^ 31"
  using assms by (auto simp: signed_divide_int_def sgn_if)

lemma sint_int_div_2:
  fixes a b :: cint
  assumes "- (2 ^ 31) \<le> sint a + sint b" and "sint a + sint b < 2 ^ 31"
  shows "sint (int_div (a + b) 2) = (sint a + sint b) sdiv 2"
proof -
  have s: "sint (a + b) = sint a + sint b" using assms by (rule sint_add_no_overflow)
  have "sint (word_of_int ((sint a + sint b) sdiv 2) :: cint) = (sint a + sint b) sdiv 2"
    using sdiv_2_bounds [OF assms] by (simp add: sint_sbintrunc' signed_take_bit_int_eq_self)
  with s show ?thesis by (simp add: int_div_def)
qed

lemma sdiv_2_floor:
  fixes k :: int
  shows "k sdiv 2 = k div 2 \<longleftrightarrow> 0 \<le> k \<or> even k"
proof (cases "0 \<le> k")
  case True
  then show ?thesis by (simp add: signed_divide_int_def sgn_if)
next
  case False
  then have "k sdiv 2 = - ((- k) div 2)" by (simp add: signed_divide_int_def sgn_if)
  with False show ?thesis by presburger
qed

lemma Mate_int_average:
  assumes "m name = Some (TInt a)" and "\<not> fst (RandFloat R s) < 0.5"
  shows "MateTraits_body R dflt (name, TInt b) (m, s) =
    (Inr (), m(name \<mapsto> TInt (int_div (a + b) 2)), snd (RandFloat R s))"
proof -
  obtain c s0 where c: "RandFloat R s = (c, s0)" by (cases "RandFloat R s")
  from assms c show ?thesis
    by (simp add: MateTraits_body_def index_Traits_present Mate_average_block_def
        Mate_double_block_def Mate_string_block_def get_int_def)
qed

text \<open>
  Claim C6, as stated, fails on a negative odd sum. On \<open>int\<close>, \<open>div\<close> of HOL rounds
  towards minus infinity, so \<open>(a + b) div 2\<close> is the floor of the half sum. With the
  parents' values -3 and 0 and the first draw 0.75 (the averaging branch) the call stores
  -1, and the floor of -3/2 is -2.
\<close>

theorem Merge_Int_average_not_floor:
  "\<not> fst (RandFloat script_RNG [Float 0.75]) < 0.5 \<and>
   MateTraits script_RNG (TInt 0) [(''layers'', TInt 0)]
     ([''layers'' \<mapsto> TInt (- 3)], [Float 0.75]) =
   (Inr (), [''layers'' \<mapsto> TInt (- 1)], []) \<and>
   (sint (- 3 :: cint) + sint (0 :: cint)) div 2 = - 2 \<and>
   sint (- 1 :: cint) \<noteq> (sint (- 3 :: cint) + sint (0 :: cint)) div 2"
  by (simp add: MateTraits_body_def index_Traits_def script_RNG_def Mate_double_block_def
      Mate_string_block_def Mate_average_block_def get_int_def int_div_def
      signed_divide_int_def)

text \<open>
  Claim C6, amended. In the averaging branch, for two int values \<open>a\<close> and \<open>b\<close> whose
  sum is an \<open>int\<close> (no overflow), the value stored is \<open>(a + b) / 2\<close> rounded towards
  zero (\<open>sdiv\<close>). It is the floor of the half sum exactly when the sum is not negative
  or is even; for a negative odd sum it is the floor plus one.
\<close>

theorem Merge_Int_average_truncates:
  assumes "m name = Some (TInt a)" and "\<not> fst (RandFloat R s) < 0.5"
    and "- (2 ^ 31) \<le> sint a + sint b" and "sint a + sint b < 2 ^ 31"
  shows "\<exists>v. MateTraits_body R dflt (name, TInt b) (m, s) =
      (Inr (), m(name \<mapsto> TInt v), snd (RandFloat R s)) \<and>
    sint v = (sint a + sint b) sdiv 2 \<and>
    (sint v = (sint a + sint b) div 2 \<longleftrightarrow> 0 \<le> sint a + sint b \<or> even (sint a + sint b))"
proof -
  have v: "sint (int_div (a + b) 2) = (sint a + sint b) sdiv 2"
    using assms(3,4) by (rule sint_int_div_2)
  from Mate_int_average [where m = m and name = name and a = a and R = R and s = s
      and dflt = dflt and b = b] assms(1,2)
  have "MateTraits_body R dflt (name, TInt b) (m, s) =
      (Inr (), m(name \<mapsto> TInt (int_div (a + b) 2)), snd (RandFloat R s))"
    by simp
  with v sdiv_2_floor [of "sint a + sint b"] show ?thesis by auto
qed

theorem Merge_Int_average_truncates_witness:
  "[''layers'' \<mapsto> TInt 4] ''layers'' = Some (TInt 4) \<and>
   \<not> fst (RandFloat script_RNG [Float 0.75]) < 0.5 \<and>
   - (2 ^ 31) \<le> sint (4 :: cint) + sint (6 :: cint) \<and>
   sint (4 :: cint) + sint (6 :: cint) < 2 ^ 31 \<and>
   (\<exists>v. MateTraits_body script_RNG (TInt 0) (''layers'', TInt 6)
        ([''layers'' \<mapsto> TInt 4], [Float 0.75]) =
      (Inr (), [''layers'' \<mapsto> TInt v], []) \<and> sint v = 5)"
proof -
  have h1: "[''layers'' \<mapsto> TInt 4] ''layers'' = Some (TInt 4)" by simp
  have h2: "\<not> fst (RandFloat script_RNG [Float 0.75]) < 0.5" by (simp add: script_RNG_def)
  have h3: "- (2 ^ 31) \<le> sint (4 :: cint) + sint (6 :: cint)" by simp
  have h4: "sint (4 :: cint) + sint (6 :: cint) < 2 ^ 31" by simp
  from Merge_Int_average_truncates [where m = "[''layers'' \<mapsto> TInt 4]"
      and name = "''layers''" and a = 4 and b = 6 and R = script_RNG
      and s = "[Float 0.75]" and dflt = "TInt 0"] h1 h2 h3 h4
  obtain v where "MateTraits_body script_RNG (TInt 0) (''layers'', TInt 6)
        ([''layers'' \<mapsto> TInt 4], [Float 0.75]) =
      (Inr (), [''layers'' \<mapsto> TInt 4, ''layers'' \<mapsto> TInt v], snd (RandFloat script_RNG [Float 0.75]))"
    and "sint v = (sint (4 :: cint) + sint (6 :: cint)) sdiv 2"
    by blast
  then have "MateTraits_body script_RNG (TInt 0) (''layers'', TInt 6)
        ([''layers'' \<mapsto> TInt 4], [Float 0.75]) =
      (Inr (), [''layers'' \<mapsto> TInt v], []) \<and> sint v = 5"
    by (simp add: script_RNG_def signed_divide_int_def)
  with h1 h2 h3 h4 show ?thesis by blast
qed

subsection \<open>MutateTraits: bounds of int and real traits\<close>

lemma Clamp_int_bounds:
  "lo <=s hi \<Longrightarrow> lo <=s Clamp_int a lo hi \<and> Clamp_int a lo hi <=s hi"
  by (auto simp: Clamp_int_def word_sle_eq word_sless_alt)

lemma Clamp_double_bounds:
  "lo \<le> hi \<Longrightarrow> lo \<le> Clamp_double a lo hi \<and> Clamp_double a lo hi \<le> hi"
  by (auto simp: Clamp_double_def)

lemma Scale_unit_bounds:
  assumes "lo \<le> hi" and "0 \<le> u" and "u < 1"
  shows "lo \<le> Scale u 0 1 lo hi \<and> Scale u 0 1 lo hi \<le> hi"
proof -
  have "0 \<le> (hi - lo) * u" using assms by simp
  moreover have "(hi - lo) * u \<le> (hi - lo) * 1"
    using assms by (intro mult_left_mono) simp_all
  ultimately show ?thesis by (simp add: Scale_def)
qed

lemma Mutate_int_block_bounds:
  assumes "RNG_contract R" and "m_Details p = IntDetails itp" and "min_i itp <=s max_i itp"
    and "m name = Some (TInt v)"
  shows "\<exists>v' s'. Mutate_int_block R dflt name p (m, s) = (Inr (), m(name \<mapsto> TInt v'), s') \<and>
    (if fst (RandFloat R s) < m_MutationProb p then min_i itp <=s v' \<and> v' <=s max_i itp
     else v' = v)"
proof -
  obtain c1 s1 where c1: "RandFloat R s = (c1, s1)" by (cases "RandFloat R s")
  obtain c2 s2 where c2: "RandFloat R s1 = (c2, s2)" by (cases "RandFloat R s1")
  obtain r s3 where r: "RandInt R (min_i itp) (max_i itp) s2 = (r, s3)"
    by (cases "RandInt R (min_i itp) (max_i itp) s2")
  obtain d s4 where d: "RandInt R (- mut_power_i itp) (mut_power_i itp) s2 = (d, s4)"
    by (cases "RandInt R (- mut_power_i itp) (mut_power_i itp) s2")
  from assms(1,3) r have rb: "min_i itp <=s r \<and> r <=s max_i itp"
    unfolding RNG_contract_def by (metis fst_conv)
  have same: "m(name \<mapsto> TInt v) = m" using assms(4) by (simp add: fun_upd_idem)
  show ?thesis
    using assms(2,4) c1 c2 r d rb same Clamp_int_bounds [OF assms(3), of "v + d"]
    by (auto simp: Mutate_int_block_def get_IntTraitParameters_def index_Traits_present
        get_int_def)
qed

lemma Mutate_float_block_bounds:
  assumes "RNG_contract R" and "m_Details p = FloatDetails itp" and "min_f itp \<le> max_f itp"
    and "m name = Some (TDouble v)"
  shows "\<exists>v' s'. Mutate_float_block R dflt name p (m, s) =
      (Inr (), m(name \<mapsto> TDouble v'), s') \<and>
    (if fst (RandFloat R s) < m_MutationProb p then min_f itp \<le> v' \<and> v' \<le> max_f itp
     else v' = v)"
proof -
  obtain c1 s1 where c1: "RandFloat R s = (c1, s1)" by (cases "RandFloat R s")
  obtain c2 s2 where c2: "RandFloat R s1 = (c2, s2)" by (cases "RandFloat R s1")
  obtain u s3 where u: "RandFloat R s2 = (u, s3)" by (cases "RandFloat R s2")
  obtain d s4 where d: "RandFloatSigned R s2 = (d, s4)" by (cases "RandFloatSigned R s2")
  from assms(1) u have ub: "0 \<le> u \<and> u < 1"
    unfolding RNG_contract_def by (metis fst_conv)
  have same: "m(name \<mapsto> TDouble v) = m" using assms(4) by (simp add: fun_upd_idem)
  show ?thesis
    using assms(2,4) c1 c2 u d same
      Clamp_double_bounds [OF assms(3), of "v + d * mut_power_f itp"]
      Scale_unit_bounds [OF assms(3), of u] ub
    by (auto simp: Mutate_float_block_def get_FloatTraitParameters_def index_Traits_present
        get_double_def)
qed

text \<open>
  Claim C7. Take a generator that keeps its contract and a trait whose parameters have
  \<open>min \<le> max\<close>. For an int trait whose bag entry is an int, and for a real trait whose
  bag entry is a real, the pass of \<^verbatim>\<open>MutateTraits\<close> for that trait returns normally and
  stores a value of the same kind. When the draw against the mutation probability
  triggers, in the replace branch as in the perturb branch, the value stored lies in
  \<open>[min, max]\<close>; when it does not trigger, the value is the one that was there.
\<close>

theorem Mutate_Int_Real_within_bounds:
  assumes "RNG_contract R"
  shows "(type p = ''int'' \<and> m_Details p = IntDetails ip \<and> min_i ip <=s max_i ip \<and>
      m name = Some (TInt i) \<longrightarrow>
      (\<exists>i' s'. MutateTraits_body R dflt (name, p) (m, s) = (Inr (), m(name \<mapsto> TInt i'), s') \<and>
         (if fst (RandFloat R s) < m_MutationProb p then min_i ip <=s i' \<and> i' <=s max_i ip
          else i' = i))) \<and>
    (type p = ''float'' \<and> m_Details p = FloatDetails fp \<and> min_f fp \<le> max_f fp \<and>
      m name = Some (TDouble x) \<longrightarrow>
      (\<exists>x' s'. MutateTraits_body R dflt (name, p) (m, s) =
           (Inr (), m(name \<mapsto> TDouble x'), s') \<and>
         (if fst (RandFloat R s) < m_MutationProb p then min_f fp \<le> x' \<and> x' \<le> max_f fp
          else x' = x)))"
proof (intro conjI impI)
  assume a: "type p = ''int'' \<and> m_Details p = IntDetails ip \<and> min_i ip <=s max_i ip \<and>
      m name = Some (TInt i)"
  then have "MutateTraits_body R dflt (name, p) (m, s) = Mutate_int_block R dflt name p (m, s)"
    by (simp add: MutateTraits_body_def)
  with Mutate_int_block_bounds [where R = R and p = p and itp = ip and m = m and name = name
      and v = i and dflt = dflt and s = s] assms a
  show "\<exists>i' s'. MutateTraits_body R dflt (name, p) (m, s) = (Inr (), m(name \<mapsto> TInt i'), s') \<and>
         (if fst (RandFloat R s) < m_MutationProb p then min_i ip <=s i' \<and> i' <=s max_i ip
          else i' = i)"
    by simp
next
  assume a: "type p = ''float'' \<and> m_Details p = FloatDetails fp \<and> min_f fp \<le> max_f fp \<and>
      m name = Some (TDouble x)"
  then have "MutateTraits_body R dflt (name, p) (m, s) =
      Mutate_float_block R dflt name p (m, s)"
    by (simp add: MutateTraits_body_def)
  with Mutate_float_block_bounds [where R = R and p = p and itp = fp and m = m
      and name = name and v = x and dflt = dflt and s = s] assms a
  show "\<exists>x' s'. MutateTraits_body R dflt (name, p) (m, s) =
           (Inr (), m(name \<mapsto> TDouble x'), s') \<and>
         (if fst (RandFloat R s) < m_MutationProb p then min_f fp \<le> x' \<and> x' \<le> max_f fp
          else x' = x)"
    by simp
qed

theorem Mutate_Int_Real_within_bounds_witness:
  "RNG_contract script_RNG \<and>
   type layers_spec = ''int'' \<and>
   m_Details layers_spec =
     IntDetails \<lparr>min_i = 1, max_i = 10, mut_power_i = 5, mut_replace_prob_i = 0\<rparr> \<and>
   (1 :: cint) <=s 10 \<and>
   [''layers'' \<mapsto> TInt 9] ''layers'' = Some (TInt 9) \<and>
   fst (RandFloat script_RNG [Float 0, Float 0.9, Index 5]) < m_MutationProb layers_spec \<and>
   (\<exists>i' s'. MutateTraits_body script_RNG (TInt 0) (''layers'', layers_spec)
        ([''layers'' \<mapsto> TInt 9], [Float 0, Float 0.9, Index 5]) =
        (Inr (), [''layers'' \<mapsto> TInt i'], s') \<and> 1 <=s i' \<and> i' <=s 10) \<and>
   type aggression_spec = ''float'' \<and>
   m_Details aggression_spec =
     FloatDetails \<lparr>min_f = 0, max_f = 1, mut_power_f = 1, mut_replace_prob_f = 0\<rparr> \<and>
   (0 :: real) \<le> 1 \<and>
   [''aggression'' \<mapsto> TDouble 0.9] ''aggression'' = Some (TDouble 0.9) \<and>
   fst (RandFloat script_RNG [Float 0, Float 0.9, Float 0.5]) < m_MutationProb aggression_spec \<and>
   (\<exists>x' s'. MutateTraits_body script_RNG (TInt 0) (''aggression'', aggression_spec)
        ([''aggression'' \<mapsto> TDouble 0.9], [Float 0, Float 0.9, Float 0.5]) =
        (Inr (), [''aggression'' \<mapsto> TDouble x'], s') \<and> 0 \<le> x' \<and> x' \<le> 1)"
proof -
  have c: "RNG_contract script_RNG" by (rule script_RNG_contract)
  have i1: "type layers_spec = ''int''" by (simp add: layers_spec_def)
  have i2: "m_Details layers_spec =
     IntDetails \<lparr>min_i = 1, max_i = 10, mut_power_i = 5, mut_replace_prob_i = 0\<rparr>"
    by (simp add: layers_spec_def)
  have i3: "(1 :: cint) <=s 10" by (simp add: word_sle_eq)
  have i4: "[''layers'' \<mapsto> TInt 9] ''layers'' = Some (TInt 9)" by simp
  have i5: "fst (RandFloat script_RNG [Float 0, Float 0.9, Index 5])
      < m_MutationProb layers_spec"
    by (simp add: layers_spec_def script_RNG_def)
  have f1: "type aggression_spec = ''float''" by (simp add: aggression_spec_def)
  have f2: "m_Details aggression_spec =
     FloatDetails \<lparr>min_f = 0, max_f = 1, mut_power_f = 1, mut_replace_prob_f = 0\<rparr>"
    by (simp add: aggression_spec_def)
  have f3: "(0 :: real) \<le> 1" by simp
  have f4: "[''aggression'' \<mapsto> TDouble 0.9] ''aggression'' = Some (TDouble 0.9)" by simp
  have f5: "fst (RandFloat script_RNG [Float 0, Float 0.9, Float 0.5])
      < m_MutationProb aggression_spec"
    by (simp add: aggression_spec_def script_RNG_def)
  from Mutate_Int_Real_within_bounds [OF c, where p = layers_spec and name = "''layers''"
      and ip = "\<lparr>min_i = 1, max_i = 10, mut_power_i = 5, mut_replace_prob_i = 0\<rparr>"
      and m = "[''layers'' \<mapsto> TInt 9]" and i = 9 and dflt = "TInt 0"
      and s = "[Float 0, Float 0.9, Index 5]"] i1 i2 i3 i4 i5
  have ri: "\<exists>i' s'. MutateTraits_body script_RNG (TInt 0) (''layers'', layers_spec)
        ([''layers'' \<mapsto> TInt 9], [Float 0, Float 0.9, Index 5]) =
        (Inr (), [''layers'' \<mapsto> TInt i'], s') \<and> 1 <=s i' \<and> i' <=s 10"
    by simp
  from Mutate_Int_Real_within_bounds [OF c, where p = aggression_spec
      and name = "''aggression''"
      and fp = "\<lparr>min_f = 0, max_f = 1, mut_power_f = 1, mut_replace_prob_f = 0\<rparr>"
      and m = "[''aggression'' \<mapsto> TDouble 0.9]" and x = "0.9" and dflt = "TInt 0"
      and s = "[Float 0, Float 0.9, Float 0.5]"] f1 f2 f3 f4 f5
  have rf: "\<exists>x' s'. MutateTraits_body script_RNG (TInt 0) (''aggression'', aggression_spec)
        ([''aggression'' \<mapsto> TDouble 0.9], [Float 0, Float 0.9, Float 0.5]) =
        (Inr (), [''aggression'' \<mapsto> TDouble x'], s') \<and> 0 \<le> x' \<and> x' \<le> 1"
    by simp
  from c i1 i2 i3 i4 i5 ri f1 f2 f3 f4 f5 rf show ?thesis by blast
qed

text \<open>
  The same for a whole call: the names of \<^verbatim>\<open>tp\<close> are distinct, so the pass for a
  trait is the only one that writes under its name.
\<close>

lemma MutateTraits_int_within_bounds:
  assumes "RNG_contract R" and "distinct (map fst tp)" and "(name, p) \<in> set tp"
    and "type p = ''int''" and "m_Details p = IntDetails ip" and "min_i ip <=s max_i ip"
    and "m name = Some (TInt i)"
  shows "\<exists>i'. fst (snd (MutateTraits R dflt tp (m, s))) name = Some (TInt i') \<and>
    (i' = i \<or> (min_i ip <=s i' \<and> i' <=s max_i ip))"
  using assms(2,3,7)
proof (induction tp arbitrary: m s)
  case Nil
  then show ?case by simp
next
  case (Cons e tp)
  obtain k q where e: "e = (k, q)" by (cases e)
  show ?case
  proof (cases "e = (name, p)")
    case True
    from Mutate_int_block_bounds [where R = R and p = p and itp = ip and m = m
        and name = name and v = i and dflt = dflt and s = s] assms(1,5,6) Cons.prems(3)
    obtain i' s' where b: "Mutate_int_block R dflt name p (m, s) =
        (Inr (), m(name \<mapsto> TInt i'), s')"
      and i': "i' = i \<or> (min_i ip <=s i' \<and> i' <=s max_i ip)"
      by (auto split: if_splits)
    from Cons.prems(1) True have "name \<notin> fst ` set tp" by simp
    then have "fst (snd (MutateTraits R dflt tp (m(name \<mapsto> TInt i'), s'))) name =
        (m(name \<mapsto> TInt i')) name"
      by (rule MutateTraits_other)
    with True b i' assms(4) show ?thesis by (simp add: MutateTraits_body_def)
  next
    case False
    with Cons.prems(2) have mem: "(name, p) \<in> set tp" by simp
    with Cons.prems(1) e have kn: "k \<noteq> name" by (auto simp: image_iff)
    obtain r m1 s1 where b: "MutateTraits_body R dflt (k, q) (m, s) = (r, m1, s1)"
      by (cases "MutateTraits_body R dflt (k, q) (m, s)")
    have m1: "m1 name = Some (TInt i)"
      using MutateTraits_body_other [OF kn, of R dflt q m s] b Cons.prems(3) by simp
    show ?thesis
    proof (cases r)
      case (Inl err)
      with b e m1 show ?thesis by simp
    next
      case (Inr u)
      from Cons.prems(1) have "distinct (map fst tp)" by simp
      from Cons.IH [where m = m1 and s = s1] this mem m1 b e Inr show ?thesis by simp
    qed
  qed
qed

lemma MutateTraits_float_within_bounds:
  assumes "RNG_contract R" and "distinct (map fst tp)" and "(name, p) \<in> set tp"
    and "type p = ''float''" and "m_Details p = FloatDetails fp" and "min_f fp \<le> max_f fp"
    and "m name = Some (TDouble x)"
  shows "\<exists>x'. fst (snd (MutateTraits R dflt tp (m, s))) name = Some (TDouble x') \<and>
    (x' = x \<or> (min_f fp \<le> x' \<and> x' \<le> max_f fp))"
  using assms(2,3,7)
proof (induction tp arbitrary: m s)
  case Nil
  then show ?case by simp
next
  case (Cons e tp)
  obtain k q where e: "e = (k, q)" by (cases e)
  show ?case
  proof (cases "e = (name, p)")
    case True
    from Mutate_float_block_bounds [where R = R and p = p and itp = fp and m = m
        and name = name and v = x and dflt = dflt and s = s] assms(1,5,6) Cons.prems(3)
    obtain x' s' where b: "Mutate_float_block R dflt name p (m, s) =
        (Inr (), m(name \<mapsto> TDouble x'), s')"
      and x': "x' = x \<or> (min_f fp \<le> x' \<and> x' \<le> max_f fp)"
      by (auto split: if_splits)
    from Cons.prems(1) True have "name \<notin> fst ` set tp" by simp
    then have "fst (snd (MutateTraits R dflt tp (m(name \<mapsto> TDouble x'), s'))) name =
        (m(name \<mapsto> TDouble x')) name"
      by (rule MutateTraits_other)
    with True b x' assms(4) show ?thesis by (simp add: MutateTraits_body_def)
  next
    case False
    with Cons.prems(2) have mem: "(name, p) \<in> set tp" by simp
    with Cons.prems(1) e have kn: "k \<noteq> name" by (auto simp: image_iff)
    obtain r m1 s1 where b: "MutateTraits_body R dflt (k, q) (m, s) = (r, m1, s1)"
      by (cases "MutateTraits_body R dflt (k, q) (m, s)")
    have m1: "m1 name = Some (TDouble x)"
      using MutateTraits_body_other [OF kn, of R dflt q m s] b Cons.prems(3) by simp
    show ?thesis
    proof (cases r)
      case (Inl err)
      with b e m1 show ?thesis by simp
    next
      case (Inr u)
      from Cons.prems(1) have "distinct (map fst tp)" by simp
      from Cons.IH [where m = m1 and s = s1] this mem m1 b e Inr show ?thesis by simp
    qed
  qed
qed

subsection \<open>MateTraits: what a pass does to the bag\<close>

lemma MateTraits_body_mismatch:
  assumes "index_Traits dflt m k = (mine, m0)" and "type_of mine \<noteq> type_of y"
  shows "MateTraits_body R dflt (k, y) (m, s) =
    (Inl (runtime_error ''Types of traits doesn't match''), m0, s)"
  using assms by (simp add: MateTraits_body_def)

lemma MateTraits_body_match:
  assumes "index_Traits dflt m k = (mine, m0)" and "type_of mine = type_of y"
  shows "\<exists>v s'. MateTraits_body R dflt (k, y) (m, s) = (Inr (), m0(k \<mapsto> v), s') \<and>
    type_of v = type_of y"
proof -
  obtain c s0 where c: "RandFloat R s = (c, s0)" by (cases "RandFloat R s")
  obtain c1 s1 where c1: "RandFloat R s0 = (c1, s1)" by (cases "RandFloat R s0")
  from assms show ?thesis
    by (cases mine; cases y)
      (auto simp: MateTraits_body_def Mate_average_block_def Mate_double_block_def
        Mate_string_block_def either_or_def get_int_def get_double_def c c1
        split: prod.splits)
qed

lemma MateTraits_body_error:
  assumes "fst (MateTraits_body R dflt (k, y) (m, s)) = Inl e"
  shows "e = runtime_error ''Types of traits doesn't match'' \<and>
    snd (MateTraits_body R dflt (k, y) (m, s)) = (snd (index_Traits dflt m k), s) \<and>
    type_of (fst (index_Traits dflt m k)) \<noteq> type_of y"
proof -
  obtain mine m0 where i: "index_Traits dflt m k = (mine, m0)"
    by (cases "index_Traits dflt m k")
  show ?thesis
  proof (cases "type_of mine = type_of y")
    case True
    from MateTraits_body_match [OF i True, of R s] assms show ?thesis by auto
  next
    case False
    from MateTraits_body_mismatch [OF i False, of R s] assms i False show ?thesis by simp
  qed
qed

lemma MateTraits_body_other:
  assumes "k \<noteq> name"
  shows "fst (snd (MateTraits_body R dflt (k, y) (m, s))) name = m name"
proof -
  obtain mine m0 where i: "index_Traits dflt m k = (mine, m0)"
    by (cases "index_Traits dflt m k")
  from index_Traits_other [OF assms, of dflt m] i have m0: "m0 name = m name" by simp
  show ?thesis
  proof (cases "type_of mine = type_of y")
    case True
    from MateTraits_body_match [OF i True, of R s] assms m0 show ?thesis by auto
  next
    case False
    from MateTraits_body_mismatch [OF i False, of R s] m0 show ?thesis by simp
  qed
qed

lemma MateTraits_other:
  "name \<notin> fst ` set t \<Longrightarrow> fst (snd (MateTraits R dflt t (m, s))) name = m name"
proof (induction t arbitrary: m s)
  case Nil
  then show ?case by simp
next
  case (Cons e t)
  obtain k y where e: "e = (k, y)" by (cases e)
  obtain r m1 s1 where b: "MateTraits_body R dflt (k, y) (m, s) = (r, m1, s1)"
    by (cases "MateTraits_body R dflt (k, y) (m, s)")
  from Cons.prems e have "k \<noteq> name" by auto
  then have m1: "m1 name = m name"
    using MateTraits_body_other [of k name R dflt y m s] b by simp
  from Cons.prems have "name \<notin> fst ` set t" by simp
  then have "fst (snd (MateTraits R dflt t (m1, s1))) name = m1 name"
    by (rule Cons.IH)
  with m1 b e show ?case by (cases r) simp_all
qed

lemma MateTraits_body_keeps_type:
  assumes "m name = Some x"
  shows "\<exists>x'. fst (snd (MateTraits_body R dflt (k, y) (m, s))) name = Some x' \<and>
    type_of x' = type_of x"
proof (cases "k = name")
  case False
  with MateTraits_body_other [of k name R dflt y m s] assms show ?thesis by simp
next
  case True
  from assms True have i: "index_Traits dflt m k = (x, m)" by (simp add: index_Traits_present)
  show ?thesis
  proof (cases "type_of x = type_of y")
    case same: True
    from MateTraits_body_match [OF i same, of R s] True same show ?thesis by auto
  next
    case differ: False
    from MateTraits_body_mismatch [OF i differ, of R s] True assms show ?thesis by simp
  qed
qed

lemma MateTraits_keeps_type:
  assumes "m name = Some x"
  shows "\<exists>x'. fst (snd (MateTraits R dflt other (m, s))) name = Some x' \<and>
    type_of x' = type_of x"
  using assms
proof (induction other arbitrary: m s x)
  case Nil
  then show ?case by simp
next
  case (Cons e other)
  obtain k y where e: "e = (k, y)" by (cases e)
  obtain r m1 s1 where b: "MateTraits_body R dflt (k, y) (m, s) = (r, m1, s1)"
    by (cases "MateTraits_body R dflt (k, y) (m, s)")
  from MateTraits_body_keeps_type [where m = m and name = name and x = x and R = R
      and dflt = dflt and k = k and y = y and s = s] Cons.prems b
  obtain x1 where x1: "m1 name = Some x1" "type_of x1 = type_of x" by auto
  show ?case
  proof (cases r)
    case (Inl err)
    with b e x1 show ?thesis by simp
  next
    case (Inr u)
    from Cons.IH [where m = m1 and x = x1 and s = s1] x1 b e Inr show ?thesis by simp
  qed
qed

subsection \<open>Values of different kinds under one name\<close>

lemma MateTraits_mismatch:
  assumes "(name, yours) \<in> set other" and "m name = Some mine"
    and "type_of mine \<noteq> type_of yours"
  shows "fst (MateTraits R dflt other (m, s)) =
    Inl (runtime_error ''Types of traits doesn't match'')"
  using assms
proof (induction other arbitrary: m s mine)
  case Nil
  then show ?case by simp
next
  case (Cons e other)
  obtain k y where e: "e = (k, y)" by (cases e)
  obtain r m1 s1 where b: "MateTraits_body R dflt (k, y) (m, s) = (r, m1, s1)"
    by (cases "MateTraits_body R dflt (k, y) (m, s)")
  show ?case
  proof (cases r)
    case (Inl err)
    with MateTraits_body_error [of R dflt k y m s err] b e show ?thesis by simp
  next
    case (Inr u)
    have "e \<noteq> (name, yours)"
    proof
      assume "e = (name, yours)"
      with e have ky: "k = name" "y = yours" by simp_all
      from Cons.prems(2) have "index_Traits dflt m name = (mine, m)"
        by (simp add: index_Traits_present)
      from MateTraits_body_mismatch [OF this Cons.prems(3), of R s] b ky Inr
      show False by simp
    qed
    with Cons.prems(1) have mem: "(name, yours) \<in> set other" by simp
    from MateTraits_body_keeps_type [where m = m and name = name and x = mine and R = R
        and dflt = dflt and k = k and y = y and s = s] Cons.prems(2) b
    obtain x1 where x1: "m1 name = Some x1" "type_of x1 = type_of mine" by auto
    from x1(2) Cons.prems(3) have "type_of x1 \<noteq> type_of yours" by simp
    from Cons.IH [where m = m1 and mine = x1 and s = s1] mem x1(1) this b e Inr
    show ?thesis by simp
  qed
qed

lemma GetTraitDistances_loop_mismatch:
  assumes "(name, yours) \<in> set other" and "m name = Some mine"
    and "type_of mine \<noteq> type_of yours"
  shows "fst (GetTraitDistances_loop dflt other (m, acc)) =
    Inl (runtime_error ''Types of traits doesn't match'')"
  using assms
proof (induction other arbitrary: m acc)
  case Nil
  then show ?case by simp
next
  case (Cons e other)
  obtain k y where e: "e = (k, y)" by (cases e)
  from GetTraitDistances_body_shape [of dflt k y m acc]
  obtain r where b: "GetTraitDistances_body dflt (k, y) (m, acc) =
      (r, snd (index_Traits dflt m k))"
    and r: "(r = Inl (runtime_error ''Types of traits doesn't match'') \<and>
       type_of (fst (index_Traits dflt m k)) \<noteq> type_of y) \<or>
      (type_of (fst (index_Traits dflt m k)) = type_of y \<and> (\<exists>d. r = Inr (acc(k \<mapsto> d))))"
    by blast
  show ?case
  proof (cases r)
    case (Inl err)
    with r b e show ?thesis by auto
  next
    case (Inr acc1)
    with r have same: "type_of (fst (index_Traits dflt m k)) = type_of y" by auto
    have "e \<noteq> (name, yours)"
    proof
      assume "e = (name, yours)"
      with e have "k = name" "y = yours" by simp_all
      with same Cons.prems(2,3) show False by (simp add: index_Traits_present)
    qed
    with Cons.prems(1) have mem: "(name, yours) \<in> set other" by simp
    from GetTraitDistances_body_keeps [where m = m and name = name and x = mine
        and dflt = dflt and k = k and y = y and acc = acc] Cons.prems(2) b
    have m1: "snd (index_Traits dflt m k) name = Some mine" by simp
    from Cons.IH [where m = "snd (index_Traits dflt m k)" and acc = acc1] mem m1 Cons.prems(3)
      b e Inr
    show ?thesis by simp
  qed
qed

text \<open>
  Claim C8. When the argument has, under a name that the receiver's bag also has, a
  value whose kind differs from the kind of the receiver's value, \<^verbatim>\<open>MateTraits\<close> and
  \<^verbatim>\<open>GetTraitDistances\<close> both end in the \<^verbatim>\<open>std::runtime_error\<close> with the message
  \<open>Types of traits doesn't match\<close>, which no other statement of the file throws.
  Nothing is converted: after the throw the receiver still holds a value of its own kind
  under that name, and after \<^verbatim>\<open>GetTraitDistances\<close> the very value it held.
\<close>

theorem kind_mismatch_throws:
  assumes "(name, yours) \<in> set other" and "m name = Some mine"
    and "type_of mine \<noteq> type_of yours"
  shows "fst (MateTraits R dflt other (m, s)) =
      Inl (runtime_error ''Types of traits doesn't match'') \<and>
    (\<exists>x. fst (snd (MateTraits R dflt other (m, s))) name = Some x \<and>
       type_of x = type_of mine) \<and>
    fst (GetTraitDistances dflt other m) =
      Inl (runtime_error ''Types of traits doesn't match'') \<and>
    snd (GetTraitDistances dflt other m) name = Some mine"
  using assms
    MateTraits_mismatch [where name = name and yours = yours and other = other and m = m
      and mine = mine and R = R and dflt = dflt and s = s]
    MateTraits_keeps_type [where m = m and name = name and x = mine and R = R and dflt = dflt
      and other = other and s = s]
    GetTraitDistances_loop_mismatch [where name = name and yours = yours and other = other
      and m = m and mine = mine and dflt = dflt and acc = Map.empty]
    GetTraitDistances_loop_keeps [where m = m and name = name and x = mine and dflt = dflt
      and other = other and acc = Map.empty]
  by (simp add: GetTraitDistances_def)

theorem kind_mismatch_throws_witness:
  "(''speed'', TDouble 3) \<in> set [(''speed'', TDouble 3)] \<and>
   [''speed'' \<mapsto> TInt 3] ''speed'' = Some (TInt 3) \<and>
   type_of (TInt 3) \<noteq> type_of (TDouble 3) \<and>
   MateTraits script_RNG (TInt 0) [(''speed'', TDouble 3)] ([''speed'' \<mapsto> TInt 3], []) =
     (Inl (runtime_error ''Types of traits doesn't match''), [''speed'' \<mapsto> TInt 3], []) \<and>
   GetTraitDistances (TInt 0) [(''speed'', TDouble 3)] [''speed'' \<mapsto> TInt 3] =
     (Inl (runtime_error ''Types of traits doesn't match''), [''speed'' \<mapsto> TInt 3])"
proof -
  have h1: "(''speed'', TDouble 3) \<in> set [(''speed'', TDouble 3)]" by simp
  have h2: "[''speed'' \<mapsto> TInt 3] ''speed'' = Some (TInt 3)" by simp
  have h3: "type_of (TInt 3) \<noteq> type_of (TDouble 3)" by simp
  have e1: "snd (MateTraits script_RNG (TInt 0) [(''speed'', TDouble 3)]
      ([''speed'' \<mapsto> TInt 3], [])) = ([''speed'' \<mapsto> TInt 3], [])"
    by (simp add: MateTraits_body_def index_Traits_def)
  have e2: "snd (GetTraitDistances (TInt 0) [(''speed'', TDouble 3)] [''speed'' \<mapsto> TInt 3]) =
      [''speed'' \<mapsto> TInt 3]"
    by (simp add: GetTraitDistances_def GetTraitDistances_body_def index_Traits_def)
  from kind_mismatch_throws [where name = "''speed''" and yours = "TDouble 3"
      and other = "[(''speed'', TDouble 3)]" and m = "[''speed'' \<mapsto> TInt 3]"
      and mine = "TInt 3" and R = script_RNG and dflt = "TInt 0" and s = "[]"] h1 h2 h3
  have t1: "fst (MateTraits script_RNG (TInt 0) [(''speed'', TDouble 3)]
      ([''speed'' \<mapsto> TInt 3], [])) = Inl (runtime_error ''Types of traits doesn't match'')"
    and t2: "fst (GetTraitDistances (TInt 0) [(''speed'', TDouble 3)] [''speed'' \<mapsto> TInt 3]) =
      Inl (runtime_error ''Types of traits doesn't match'')"
    by blast+
  from t1 e1 have m1: "MateTraits script_RNG (TInt 0) [(''speed'', TDouble 3)]
      ([''speed'' \<mapsto> TInt 3], []) =
     (Inl (runtime_error ''Types of traits doesn't match''), [''speed'' \<mapsto> TInt 3], [])"
    by (metis prod.collapse)
  from t2 e2 have m2: "GetTraitDistances (TInt 0) [(''speed'', TDouble 3)]
      [''speed'' \<mapsto> TInt 3] =
     (Inl (runtime_error ''Types of traits doesn't match''), [''speed'' \<mapsto> TInt 3])"
    by (metis prod.collapse)
  from h1 h2 h3 m1 m2 show ?thesis by blast
qed

subsection \<open>A name of the argument that the receiver's bag lacks\<close>

lemma index_Traits_upd_other:
  assumes "k \<noteq> name" and "index_Traits dflt m k = (mine, m0)"
  shows "index_Traits dflt (m(name \<mapsto> v)) k = (mine, m0(name \<mapsto> v))"
  using assms by (auto simp: index_Traits_def fun_upd_twist split: option.splits)

lemma MateTraits_body_upd_other:
  assumes "k \<noteq> name" and "MateTraits_body R dflt (k, y) (m, s) = (r, m', s')"
  shows "MateTraits_body R dflt (k, y) (m(name \<mapsto> v), s) = (r, m'(name \<mapsto> v), s')"
proof -
  obtain mine m0 where i: "index_Traits dflt m k = (mine, m0)"
    by (cases "index_Traits dflt m k")
  note i2 = index_Traits_upd_other [OF assms(1) i, of v]
  obtain c s0 where c: "RandFloat R s = (c, s0)" by (cases "RandFloat R s")
  obtain c1 s1 where c1: "RandFloat R s0 = (c1, s1)" by (cases "RandFloat R s0")
  obtain c2 s2 where c2: "RandFloat R s1 = (c2, s2)" by (cases "RandFloat R s1")
  have tw: "\<And>f a b. (f(name \<mapsto> a))(k \<mapsto> b) = (f(k \<mapsto> b))(name \<mapsto> a)"
    using assms(1) by (simp add: fun_upd_twist)
  from assms(2) show ?thesis
    by (cases mine; cases y)
      (auto simp: MateTraits_body_def Mate_average_block_def Mate_double_block_def
        Mate_string_block_def either_or_def get_int_def get_double_def i i2 c c1 c2 tw
        split: if_splits)
qed

lemma GetTraitDistances_body_upd_other:
  assumes "k \<noteq> name" and "GetTraitDistances_body dflt (k, y) (m, acc) = (r, m')"
  shows "GetTraitDistances_body dflt (k, y) (m(name \<mapsto> v), acc) = (r, m'(name \<mapsto> v))"
proof -
  obtain mine m0 where i: "index_Traits dflt m k = (mine, m0)"
    by (cases "index_Traits dflt m k")
  note i2 = index_Traits_upd_other [OF assms(1) i, of v]
  from assms(2) show ?thesis
    by (cases mine; cases y)
      (auto simp: GetTraitDistances_body_def get_int_def get_bool_def get_double_def
        get_string_def i i2 split: if_splits)
qed

lemma MateTraits_body_absent:
  "m name = None \<Longrightarrow>
   MateTraits_body R dflt (name, y) (m, s) = MateTraits_body R dflt (name, y) (m(name \<mapsto> dflt), s)"
  by (simp add: MateTraits_body_def index_Traits_def)

lemma GetTraitDistances_body_absent:
  "m name = None \<Longrightarrow>
   GetTraitDistances_body dflt (name, y) (m, acc) =
   GetTraitDistances_body dflt (name, y) (m(name \<mapsto> dflt), acc)"
  by (simp add: GetTraitDistances_body_def index_Traits_def)

lemma MateTraits_upd_other:
  assumes "name \<notin> fst ` set pre"
  shows "MateTraits R dflt pre (m(name \<mapsto> v), s) =
    (case MateTraits R dflt pre (m, s) of (r, m', s') \<Rightarrow> (r, m'(name \<mapsto> v), s'))"
  using assms
proof (induction pre arbitrary: m s)
  case Nil
  then show ?case by simp
next
  case (Cons e pre)
  obtain k y where e: "e = (k, y)" by (cases e)
  obtain r1 m1 s1 where b: "MateTraits_body R dflt (k, y) (m, s) = (r1, m1, s1)"
    by (cases "MateTraits_body R dflt (k, y) (m, s)")
  from Cons.prems e have kn: "k \<noteq> name" by auto
  have b2: "MateTraits_body R dflt (k, y) (m(name \<mapsto> v), s) = (r1, m1(name \<mapsto> v), s1)"
    using kn b by (rule MateTraits_body_upd_other)
  from Cons.prems have rest: "name \<notin> fst ` set pre" by simp
  have ih: "MateTraits R dflt pre (m1(name \<mapsto> v), s1) =
      (case MateTraits R dflt pre (m1, s1) of (r, m', s') \<Rightarrow> (r, m'(name \<mapsto> v), s'))"
    using rest by (rule Cons.IH)
  have "MateTraits R dflt ((k, y) # pre) (m(name \<mapsto> v), s) =
      (case MateTraits R dflt ((k, y) # pre) (m, s) of
         (r, m', s') \<Rightarrow> (r, m'(name \<mapsto> v), s'))"
    using b b2 ih by (cases r1) simp_all
  then show ?case unfolding e .
qed

lemma GetTraitDistances_loop_upd_other:
  assumes "name \<notin> fst ` set pre"
  shows "GetTraitDistances_loop dflt pre (m(name \<mapsto> v), acc) =
    (case GetTraitDistances_loop dflt pre (m, acc) of (r, m') \<Rightarrow> (r, m'(name \<mapsto> v)))"
  using assms
proof (induction pre arbitrary: m acc)
  case Nil
  then show ?case by simp
next
  case (Cons e pre)
  obtain k y where e: "e = (k, y)" by (cases e)
  obtain r1 m1 where b: "GetTraitDistances_body dflt (k, y) (m, acc) = (r1, m1)"
    by (cases "GetTraitDistances_body dflt (k, y) (m, acc)")
  from Cons.prems e have kn: "k \<noteq> name" by auto
  have b2: "GetTraitDistances_body dflt (k, y) (m(name \<mapsto> v), acc) =
      (r1, m1(name \<mapsto> v))"
    using kn b by (rule GetTraitDistances_body_upd_other)
  from Cons.prems have rest: "name \<notin> fst ` set pre" by simp
  have ih: "\<And>acc1. GetTraitDistances_loop dflt pre (m1(name \<mapsto> v), acc1) =
      (case GetTraitDistances_loop dflt pre (m1, acc1) of
         (r, m') \<Rightarrow> (r, m'(name \<mapsto> v)))"
    using rest by (rule Cons.IH)
  have "GetTraitDistances_loop dflt ((k, y) # pre) (m(name \<mapsto> v), acc) =
      (case GetTraitDistances_loop dflt ((k, y) # pre) (m, acc) of
         (r, m') \<Rightarrow> (r, m'(name \<mapsto> v)))"
    using b b2 ih by (cases r1) simp_all
  then show ?case unfolding e .
qed

lemma MateTraits_append:
  "MateTraits R dflt (pre @ rest) st =
    (case MateTraits R dflt pre st of
       (Inl err, st') \<Rightarrow> (Inl err, st')
     | (Inr u, st') \<Rightarrow> MateTraits R dflt rest st')"
  by (induction pre arbitrary: st) (auto split: prod.splits sum.splits)

lemma GetTraitDistances_loop_append:
  "GetTraitDistances_loop dflt (pre @ rest) st =
    (case GetTraitDistances_loop dflt pre st of
       (Inl err, m') \<Rightarrow> (Inl err, m')
     | (Inr acc, m') \<Rightarrow> GetTraitDistances_loop dflt rest (m', acc))"
  by (induction pre arbitrary: st) (auto split: prod.splits sum.splits)

lemma MateTraits_absent:
  assumes "name \<notin> fst ` set pre" and "m name = None"
    and "fst (MateTraits R dflt pre (m, s)) = Inr ()"
  shows "MateTraits R dflt (pre @ (name, yours) # post) (m, s) =
      MateTraits R dflt (pre @ (name, yours) # post) (m(name \<mapsto> dflt), s)"
    and "type_of dflt \<noteq> type_of yours \<Longrightarrow>
      fst (snd (MateTraits R dflt (pre @ (name, yours) # post) (m, s))) name = Some dflt"
proof -
  obtain m1 s1 where p: "MateTraits R dflt pre (m, s) = (Inr (), m1, s1)"
    using assms(3) by (cases "MateTraits R dflt pre (m, s)") auto
  from MateTraits_other [OF assms(1), of R dflt m s] p assms(2) have m1: "m1 name = None"
    by simp
  have "MateTraits R dflt pre (m(name \<mapsto> dflt), s) =
      (case MateTraits R dflt pre (m, s) of (r, m', s') \<Rightarrow> (r, m'(name \<mapsto> dflt), s'))"
    using assms(1) by (rule MateTraits_upd_other)
  with p
  have p2: "MateTraits R dflt pre (m(name \<mapsto> dflt), s) = (Inr (), m1(name \<mapsto> dflt), s1)"
    by simp
  have b: "MateTraits_body R dflt (name, yours) (m1, s1) =
      MateTraits_body R dflt (name, yours) (m1(name \<mapsto> dflt), s1)"
    using m1 by (rule MateTraits_body_absent)
  from p p2 b
  show "MateTraits R dflt (pre @ (name, yours) # post) (m, s) =
      MateTraits R dflt (pre @ (name, yours) # post) (m(name \<mapsto> dflt), s)"
    by (simp add: MateTraits_append)
  assume "type_of dflt \<noteq> type_of yours"
  moreover have "index_Traits dflt m1 name = (dflt, m1(name \<mapsto> dflt))"
    using m1 by (rule index_Traits_absent)
  ultimately have "MateTraits_body R dflt (name, yours) (m1, s1) =
      (Inl (runtime_error ''Types of traits doesn't match''), m1(name \<mapsto> dflt), s1)"
    using MateTraits_body_mismatch [where dflt = dflt and m = m1 and k = name
        and mine = dflt and ?m0.0 = "m1(name \<mapsto> dflt)" and y = yours and R = R and s = s1]
    by simp
  with p
  show "fst (snd (MateTraits R dflt (pre @ (name, yours) # post) (m, s))) name = Some dflt"
    by (simp add: MateTraits_append)
qed

lemma GetTraitDistances_loop_absent:
  assumes "name \<notin> fst ` set pre" and "m name = None"
    and "fst (GetTraitDistances_loop dflt pre (m, acc)) = Inr acc1"
  shows "GetTraitDistances_loop dflt (pre @ (name, yours) # post) (m, acc) =
      GetTraitDistances_loop dflt (pre @ (name, yours) # post) (m(name \<mapsto> dflt), acc)"
proof -
  obtain m1 where p: "GetTraitDistances_loop dflt pre (m, acc) = (Inr acc1, m1)"
    using assms(3) by (cases "GetTraitDistances_loop dflt pre (m, acc)") auto
  from GetTraitDistances_loop_other [OF assms(1), of dflt m acc] p assms(2)
  have m1: "m1 name = None" by simp
  have "GetTraitDistances_loop dflt pre (m(name \<mapsto> dflt), acc) =
      (case GetTraitDistances_loop dflt pre (m, acc) of (r, m') \<Rightarrow> (r, m'(name \<mapsto> dflt)))"
    using assms(1) by (rule GetTraitDistances_loop_upd_other)
  with p
  have p2: "GetTraitDistances_loop dflt pre (m(name \<mapsto> dflt), acc) =
      (Inr acc1, m1(name \<mapsto> dflt))"
    by simp
  have b: "GetTraitDistances_body dflt (name, yours) (m1, acc1) =
      GetTraitDistances_body dflt (name, yours) (m1(name \<mapsto> dflt), acc1)"
    using m1 by (rule GetTraitDistances_body_absent)
  from p p2 b show ?thesis by (simp add: GetTraitDistances_loop_append)
qed

text \<open>
  Claim C10. Let the argument have the entry \<open>(name, yours)\<close>, let the receiver's bag
  have no entry under \<open>name\<close>, and let the passes for the entries before it not throw.
  Then \<^verbatim>\<open>MateTraits\<close> and \<^verbatim>\<open>GetTraitDistances\<close> end exactly as on a receiver
  that had held the default-constructed value \<open>dflt\<close> under \<open>name\<close>: same outcome,
  same bag, same generator. So the kind check and the comparison run against \<open>dflt\<close>:
  when the kind of \<open>dflt\<close> differs from the kind of \<open>yours\<close> the call throws and
  leaves \<open>name \<mapsto> dflt\<close> in the bag. In every case the receiver's bag has gained an
  entry under \<open>name\<close>, which after \<^verbatim>\<open>GetTraitDistances\<close> holds \<open>dflt\<close> and after
  \<^verbatim>\<open>MateTraits\<close> holds a value of the kind of \<open>dflt\<close>.
\<close>

theorem absent_name_gains_default_entry:
  assumes "other = pre @ (name, yours) # post" and "name \<notin> fst ` set pre"
    and "m name = None"
  shows "(fst (MateTraits R dflt pre (m, s)) = Inr () \<longrightarrow>
       MateTraits R dflt other (m, s) = MateTraits R dflt other (m(name \<mapsto> dflt), s) \<and>
       (\<exists>v. fst (snd (MateTraits R dflt other (m, s))) name = Some v \<and>
          type_of v = type_of dflt) \<and>
       (type_of dflt \<noteq> type_of yours \<longrightarrow>
          fst (MateTraits R dflt other (m, s)) =
            Inl (runtime_error ''Types of traits doesn't match'') \<and>
          fst (snd (MateTraits R dflt other (m, s))) name = Some dflt)) \<and>
    ((\<exists>acc. fst (GetTraitDistances dflt pre m) = Inr acc) \<longrightarrow>
       GetTraitDistances dflt other m = GetTraitDistances dflt other (m(name \<mapsto> dflt)) \<and>
       snd (GetTraitDistances dflt other m) name = Some dflt \<and>
       (type_of dflt \<noteq> type_of yours \<longrightarrow>
          fst (GetTraitDistances dflt other m) =
            Inl (runtime_error ''Types of traits doesn't match'')))"
proof (intro conjI impI)
  have mem: "(name, yours) \<in> set other" using assms(1) by simp
  have upd: "(m(name \<mapsto> dflt)) name = Some dflt" by simp
  {
    assume pre: "fst (MateTraits R dflt pre (m, s)) = Inr ()"
    from MateTraits_absent(1) [OF assms(2,3) pre, of yours post] assms(1)
    show eq: "MateTraits R dflt other (m, s) = MateTraits R dflt other (m(name \<mapsto> dflt), s)"
      by simp
    from MateTraits_keeps_type [where m = "m(name \<mapsto> dflt)" and name = name and x = dflt
        and R = R and dflt = dflt and other = other and s = s] eq
    show "\<exists>v. fst (snd (MateTraits R dflt other (m, s))) name = Some v \<and>
        type_of v = type_of dflt"
      by simp
    assume differ: "type_of dflt \<noteq> type_of yours"
    from MateTraits_mismatch [where name = name and yours = yours and other = other
        and m = "m(name \<mapsto> dflt)" and mine = dflt and R = R and dflt = dflt and s = s]
      mem differ eq
    show "fst (MateTraits R dflt other (m, s)) =
        Inl (runtime_error ''Types of traits doesn't match'')"
      by simp
    from MateTraits_absent(2) [OF assms(2,3) pre differ, of post] assms(1)
    show "fst (snd (MateTraits R dflt other (m, s))) name = Some dflt"
      by simp
  }
  {
    assume "\<exists>acc. fst (GetTraitDistances dflt pre m) = Inr acc"
    then obtain acc where pre: "fst (GetTraitDistances_loop dflt pre (m, Map.empty)) = Inr acc"
      by (auto simp: GetTraitDistances_def)
    from GetTraitDistances_loop_absent [OF assms(2,3) pre, of yours post] assms(1)
    show eq: "GetTraitDistances dflt other m = GetTraitDistances dflt other (m(name \<mapsto> dflt))"
      by (simp add: GetTraitDistances_def)
    from GetTraitDistances_loop_keeps [where m = "m(name \<mapsto> dflt)" and name = name
        and x = dflt and dflt = dflt and other = other and acc = Map.empty] eq
    show "snd (GetTraitDistances dflt other m) name = Some dflt"
      by (simp add: GetTraitDistances_def)
    assume differ: "type_of dflt \<noteq> type_of yours"
    from GetTraitDistances_loop_mismatch [where name = name and yours = yours
        and other = other and m = "m(name \<mapsto> dflt)" and mine = dflt and dflt = dflt
        and acc = Map.empty] mem differ eq
    show "fst (GetTraitDistances dflt other m) =
        Inl (runtime_error ''Types of traits doesn't match'')"
      by (simp add: GetTraitDistances_def)
  }
qed

theorem absent_name_gains_default_entry_witness:
  "[(''age'', TString ''x''), (''speed'', TInt 7)] =
     [(''age'', TString ''x'')] @ (''speed'', TInt 7) # [] \<and>
   [(''age'', TString ''x''), (''speed'', TBool True)] =
     [(''age'', TString ''x'')] @ (''speed'', TBool True) # [] \<and>
   ''speed'' \<notin> fst ` set [(''age'', TString ''x'')] \<and>
   [''age'' \<mapsto> TString ''y''] ''speed'' = None \<and>
   fst (MateTraits script_RNG (TInt 0) [(''age'', TString ''x'')]
     ([''age'' \<mapsto> TString ''y''], [Float 0.75, Float 0.25, Float 0.75])) = Inr () \<and>
   (\<exists>acc. fst (GetTraitDistances (TInt 0) [(''age'', TString ''x'')]
     [''age'' \<mapsto> TString ''y'']) = Inr acc) \<and>
   type_of (TInt 0) \<noteq> type_of (TBool True) \<and>
   (\<exists>v. fst (snd (MateTraits script_RNG (TInt 0) [(''age'', TString ''x''), (''speed'', TInt 7)]
       ([''age'' \<mapsto> TString ''y''], [Float 0.75, Float 0.25, Float 0.75]))) ''speed'' = Some v \<and>
      type_of v = type_of (TInt 0)) \<and>
   snd (GetTraitDistances (TInt 0) [(''age'', TString ''x''), (''speed'', TInt 7)]
     [''age'' \<mapsto> TString ''y'']) ''speed'' = Some (TInt 0) \<and>
   fst (MateTraits script_RNG (TInt 0) [(''age'', TString ''x''), (''speed'', TBool True)]
     ([''age'' \<mapsto> TString ''y''], [Float 0.75, Float 0.25, Float 0.75])) =
     Inl (runtime_error ''Types of traits doesn't match'') \<and>
   fst (snd (MateTraits script_RNG (TInt 0) [(''age'', TString ''x''), (''speed'', TBool True)]
     ([''age'' \<mapsto> TString ''y''], [Float 0.75, Float 0.25, Float 0.75]))) ''speed'' =
     Some (TInt 0) \<and>
   fst (GetTraitDistances (TInt 0) [(''age'', TString ''x''), (''speed'', TBool True)]
     [''age'' \<mapsto> TString ''y'']) = Inl (runtime_error ''Types of traits doesn't match'')"
proof -
  have h1: "[(''age'', TString ''x''), (''speed'', TInt 7)] =
     [(''age'', TString ''x'')] @ (''speed'', TInt 7) # []"
    by simp
  have h1': "[(''age'', TString ''x''), (''speed'', TBool True)] =
     [(''age'', TString ''x'')] @ (''speed'', TBool True) # []"
    by simp
  have h2: "''speed'' \<notin> fst ` set [(''age'', TString ''x'')]" by simp
  have h3: "[''age'' \<mapsto> TString ''y''] ''speed'' = None" by simp
  have h4: "fst (MateTraits script_RNG (TInt 0) [(''age'', TString ''x'')]
     ([''age'' \<mapsto> TString ''y''], [Float 0.75, Float 0.25, Float 0.75])) = Inr ()"
    by (simp add: MateTraits_body_def index_Traits_def script_RNG_def either_or_def
        Mate_double_block_def Mate_string_block_def Mate_average_block_def)
  have h5: "\<exists>acc. fst (GetTraitDistances (TInt 0) [(''age'', TString ''x'')]
     [''age'' \<mapsto> TString ''y'']) = Inr acc"
    by (simp add: GetTraitDistances_def GetTraitDistances_body_def index_Traits_def
        get_string_def)
  have h6: "type_of (TInt 0) \<noteq> type_of (TBool True)" by simp
  note same = absent_name_gains_default_entry
    [where other = "[(''age'', TString ''x''), (''speed'', TInt 7)]"
      and pre = "[(''age'', TString ''x'')]" and name = "''speed''" and yours = "TInt 7"
      and post = "[]" and m = "[''age'' \<mapsto> TString ''y'']" and R = script_RNG
      and dflt = "TInt 0" and s = "[Float 0.75, Float 0.25, Float 0.75]"]
  note differ = absent_name_gains_default_entry
    [where other = "[(''age'', TString ''x''), (''speed'', TBool True)]"
      and pre = "[(''age'', TString ''x'')]" and name = "''speed''" and yours = "TBool True"
      and post = "[]" and m = "[''age'' \<mapsto> TString ''y'']" and R = script_RNG
      and dflt = "TInt 0" and s = "[Float 0.75, Float 0.25, Float 0.75]"]
  from same h1 h2 h3 h4 h5
  have c1: "\<exists>v. fst (snd (MateTraits script_RNG (TInt 0)
       [(''age'', TString ''x''), (''speed'', TInt 7)]
       ([''age'' \<mapsto> TString ''y''], [Float 0.75, Float 0.25, Float 0.75]))) ''speed'' = Some v \<and>
      type_of v = type_of (TInt 0)"
    and c2: "snd (GetTraitDistances (TInt 0) [(''age'', TString ''x''), (''speed'', TInt 7)]
     [''age'' \<mapsto> TString ''y'']) ''speed'' = Some (TInt 0)"
    by blast+
  from differ h1' h2 h3 h4 h5 h6
  have c3: "fst (MateTraits script_RNG (TInt 0)
       [(''age'', TString ''x''), (''speed'', TBool True)]
       ([''age'' \<mapsto> TString ''y''], [Float 0.75, Float 0.25, Float 0.75])) =
     Inl (runtime_error ''Types of traits doesn't match'')"
    and c4: "fst (snd (MateTraits script_RNG (TInt 0)
       [(''age'', TString ''x''), (''speed'', TBool True)]
       ([''age'' \<mapsto> TString ''y''], [Float 0.75, Float 0.25, Float 0.75]))) ''speed'' =
     Some (TInt 0)"
    and c5: "fst (GetTraitDistances (TInt 0)
       [(''age'', TString ''x''), (''speed'', TBool True)]
       [''age'' \<mapsto> TString ''y'']) = Inl (runtime_error ''Types of traits doesn't match'')"
    by blast+
  from h1 h1' h2 h3 h4 h5 h6 c1 c2 c3 c4 c5 show ?thesis by blast
qed

end
